theory Spec2Isabelle
  imports Main "HOL-Library.Sublist"
begin

section \<open>Strings and the two regular expressions of the catalog module\<close>

text \<open>
  Go strings are byte sequences holding UTF-8 text; they are modelled as \<open>string\<close>
  (a list of 8-bit characters). The helpers below are the functions of the Go
  standard library that \<open>command.go\<close> (package \<open>module\<close>) calls on strings.
\<close>

definition HasPrefix :: "string \<Rightarrow> string \<Rightarrow> bool" where
  "HasPrefix s pre = prefix pre s"

definition TrimPrefix :: "string \<Rightarrow> string \<Rightarrow> string" where
  "TrimPrefix s pre = (if prefix pre s then drop (length pre) s else s)"

text \<open>\<open>strings.Trim(s, "/")\<close>: all leading and trailing slashes are removed.\<close>

definition TrimSlashes :: "string \<Rightarrow> string" where
  "TrimSlashes s =
     rev (dropWhile (\<lambda>c. c = CHR ''/'') (rev (dropWhile (\<lambda>c. c = CHR ''/'') s)))"

text \<open>
  \<open>strings.TrimSpace\<close> removes the leading and trailing runes for which
  \<open>unicode.IsSpace\<close> holds. On UTF-8 bytes these are the encodings below: the six
  ASCII white-space characters, U+0085, U+00A0, U+1680, U+2000 to U+200A, U+2028,
  U+2029, U+202F, U+205F and U+3000.
\<close>

definition spaceRunes :: "string list" where
  "spaceRunes =
    [[CHR 0x09], [CHR 0x0A], [CHR 0x0B], [CHR 0x0C], [CHR 0x0D], [CHR 0x20],
     [CHR 0xC2, CHR 0x85], [CHR 0xC2, CHR 0xA0],
     [CHR 0xE1, CHR 0x9A, CHR 0x80],
     [CHR 0xE2, CHR 0x80, CHR 0x80], [CHR 0xE2, CHR 0x80, CHR 0x81],
     [CHR 0xE2, CHR 0x80, CHR 0x82], [CHR 0xE2, CHR 0x80, CHR 0x83],
     [CHR 0xE2, CHR 0x80, CHR 0x84], [CHR 0xE2, CHR 0x80, CHR 0x85],
     [CHR 0xE2, CHR 0x80, CHR 0x86], [CHR 0xE2, CHR 0x80, CHR 0x87],
     [CHR 0xE2, CHR 0x80, CHR 0x88], [CHR 0xE2, CHR 0x80, CHR 0x89],
     [CHR 0xE2, CHR 0x80, CHR 0x8A],
     [CHR 0xE2, CHR 0x80, CHR 0xA8], [CHR 0xE2, CHR 0x80, CHR 0xA9],
     [CHR 0xE2, CHR 0x80, CHR 0xAF], [CHR 0xE2, CHR 0x81, CHR 0x9F],
     [CHR 0xE3, CHR 0x80, CHR 0x80]]"

function trimLeftBy :: "string list \<Rightarrow> string \<Rightarrow> string" where
  "trimLeftBy seqs s =
     (case List.find (\<lambda>q. q \<noteq> [] \<and> prefix q s) seqs of
        None \<Rightarrow> s
      | Some q \<Rightarrow> trimLeftBy seqs (drop (length q) s))"
  by pat_completeness auto
termination
proof (relation "measure (\<lambda>(seqs, s). length s)")
  show "wf (measure (\<lambda>(seqs, s). length s))" by simp
next
  fix seqs :: "string list" and s q :: string
  assume "List.find (\<lambda>q. q \<noteq> [] \<and> prefix q s) seqs = Some q"
  then have "q \<noteq> []" and "prefix q s"
    by (auto simp: find_Some_iff)
  then have "length (drop (length q) s) < length s"
    by (cases s) (auto simp: prefix_def)
  then show "((seqs, drop (length q) s), (seqs, s)) \<in> measure (\<lambda>(seqs, s). length s)"
    by simp
qed

declare trimLeftBy.simps [simp del]

definition TrimSpace :: "string \<Rightarrow> string" where
  "TrimSpace s = rev (trimLeftBy (map rev spaceRunes) (rev (trimLeftBy spaceRunes s)))"

text \<open>
  \<open>gitHeadBranchNameReg = `^.*?([^/]+)$`\<close>. Go's matcher prefers, in this order, the
  shortest text for the lazy \<open>.*?\<close> (which never crosses a newline) and the longest for
  \<open>[^/]+\<close> (which does match newlines); \<open>$\<close> is the end of the text. So the match
  starts the group at the first position, with no newline before it, from which the
  rest of the text is non-empty and free of slashes. \<open>headBranchMatch\<close> walks the
  positions from the left and returns the text of group 1, or \<open>None\<close> when
  \<open>FindStringSubmatch\<close> returns no match.
\<close>

fun headBranchMatch :: "string \<Rightarrow> string option" where
  "headBranchMatch [] = None"
| "headBranchMatch (c # cs) =
     (if CHR ''/'' \<notin> set (c # cs) then Some (c # cs)
      else if c = CHR 0x0A then None
      else headBranchMatch cs)"

text \<open>
  \<open>repoNameFromCloneURLReg = `(?i)^.*?([-a-z_.]+)[^/]*?(?:\.git)?$`\<close>. Under \<open>(?i)\<close>
  the class \<open>[-a-z_.]\<close> holds the ASCII letters of both cases, \<open>-\<close>, \<open>_\<close>, \<open>.\<close> and
  the two runes that fold to a letter, U+017F and U+212A. \<open>nameRun\<close> splits off the
  longest prefix made of such runes (the greedy group 1). What follows the group must
  match \<open>[^/]*?(?:\.git)?$\<close>, that is, hold no slash; a shorter group would leave a
  longer rest, so the greedy choice is the only one to try at each position.
\<close>

definition isNameChar :: "char \<Rightarrow> bool" where
  "isNameChar c \<longleftrightarrow>
     (97 \<le> (of_char c :: nat) \<and> (of_char c :: nat) \<le> 122) \<or>
     (65 \<le> (of_char c :: nat) \<and> (of_char c :: nat) \<le> 90) \<or>
     c = CHR ''-'' \<or> c = CHR ''_'' \<or> c = CHR ''.''"

fun nameRun :: "string \<Rightarrow> string \<times> string" where
  "nameRun [] = ([], [])"
| "nameRun (c # cs) =
     (if isNameChar c then (let (r, rest) = nameRun cs in (c # r, rest))
      else if c = CHR 0xC5 then
        (case cs of
           d # ds \<Rightarrow> if d = CHR 0xBF then (let (r, rest) = nameRun ds in (c # d # r, rest))
                     else ([], c # cs)
         | [] \<Rightarrow> ([], c # cs))
      else if c = CHR 0xE2 then
        (case cs of
           d # e # es \<Rightarrow>
             if d = CHR 0x84 \<and> e = CHR 0xAA
             then (let (r, rest) = nameRun es in (c # d # e # r, rest))
             else ([], c # cs)
         | _ \<Rightarrow> ([], c # cs))
      else ([], c # cs))"

fun repoNameMatch :: "string \<Rightarrow> string option" where
  "repoNameMatch [] = None"
| "repoNameMatch (c # cs) =
     (let (r, rest) = nameRun (c # cs) in
      if r \<noteq> [] \<and> CHR ''/'' \<notin> set rest then Some r
      else if c = CHR 0x0A then None
      else repoNameMatch cs)"


section \<open>Paths (package \<open>path/filepath\<close> on Unix)\<close>

fun splitOn :: "char \<Rightarrow> string \<Rightarrow> string list" where
  "splitOn sep [] = [[]]"
| "splitOn sep (c # cs) =
     (if c = sep then [] # splitOn sep cs
      else (case splitOn sep cs of
              [] \<Rightarrow> [[c]]
            | w # ws \<Rightarrow> (c # w) # ws))"

fun joinWith :: "string \<Rightarrow> string list \<Rightarrow> string" where
  "joinWith sep [] = []"
| "joinWith sep [x] = x"
| "joinWith sep (x # y # ys) = x @ sep @ joinWith sep (y # ys)"

definition IsAbs :: "string \<Rightarrow> bool" where
  "IsAbs p = prefix ''/'' p"

text \<open>
  One element of a path pushed on the elements kept so far (last one first), as
  \<open>filepath.Clean\<close> does: \<open>..\<close> removes the element before it, is dropped at the root
  and is kept at the start of a relative path.
\<close>

fun cleanPush :: "bool \<Rightarrow> string list \<Rightarrow> string \<Rightarrow> string list" where
  "cleanPush rooted st c =
     (if c = ''..'' then
        (case st of
           [] \<Rightarrow> if rooted then [] else [c]
         | t # ts \<Rightarrow> if t = ''..'' then c # st else ts)
      else c # st)"

definition cleanElems :: "string \<Rightarrow> string list" where
  "cleanElems p =
     rev (foldl (cleanPush (IsAbs p)) []
       (filter (\<lambda>c. c \<noteq> [] \<and> c \<noteq> ''.'') (splitOn CHR ''/'' p)))"

definition Clean :: "string \<Rightarrow> string" where
  "Clean p =
     (let body = joinWith ''/'' (cleanElems p) in
      if IsAbs p then CHR ''/'' # body
      else if body = [] then ''.'' else body)"

text \<open>
  \<open>filepath.Join\<close> skips the leading empty elements, joins the others with the
  separator and cleans the result; with only empty elements it returns the empty string.
\<close>

definition Join :: "string list \<Rightarrow> string" where
  "Join elems =
     (case dropWhile (\<lambda>e. e = []) elems of
        [] \<Rightarrow> []
      | ys \<Rightarrow> Clean (joinWith ''/'' ys))"

section \<open>Errors\<close>

datatype oserr = ENOENT | ENOTDIR | EISDIR | EACCES | EINVAL

text \<open>
  \<open>errors.New(err)\<close> of the project's \<open>internal/errors\<close> keeps the error and attaches a
  stack trace (\<open>WithStack\<close>); \<open>errors.Errorf\<close> makes a new error from a format and its
  arguments. \<open>Foreign\<close> is an error made by a collaborator (the CAS engine, go-getter,
  \<open>tf.ToSourceURL\<close>, the ini parser), returned by this module as it is.
\<close>

datatype error =
    OsError oserr
  | Errorf string "string list"
  | WithStack error
  | Foreign string

section \<open>The file tree and the system calls the module makes\<close>

datatype node = Dir | File string

text \<open>
  The file tree maps a key, the cleaned absolute path of an entry, to the node found
  there. \<open>denied\<close> lists the keys at which creating or removing an entry fails with a
  permission error.
  Every call that changes the tree or leaves the module for a collaborator is
  recorded, with its outcome, in \<open>trace\<close> (latest call last).
\<close>

type_synonym tree = "string \<Rightarrow> node option"

datatype call =
    MkdirAll string
  | RemoveAll string
  | Create string
  | CasNew string string
  | CasClone string string
  | ToSourceURL string
  | GetterGet string string

type_synonym event = "call \<times> error option"

record world =
  files :: tree
  cwd :: string
  getwdErr :: "oserr option"
  denied :: "string list"
  trace :: "event list"

definition record_call :: "call \<Rightarrow> error option \<Rightarrow> world \<Rightarrow> world" where
  "record_call c r w = w\<lparr>trace := trace w @ [(c, r)]\<rparr>"

text \<open>
  A path is looked up the way the operating system does it, one element after the
  other: from the root for an absolute path and from the working directory otherwise;
  every directory that is stepped through must be there and be a directory (else
  \<open>ENOENT\<close> or \<open>ENOTDIR\<close>); \<open>enter\<close> is one step: an empty element and \<open>.\<close> stay, \<open>..\<close>
  goes to the directory above (the root is above itself). There are no symbolic
  links. \<open>walk\<close> returns the elements of the place reached, whether something is there
  or not; \<open>keyOf\<close> is its key in the tree. The empty path names nothing.
\<close>

definition keyOf :: "string list \<Rightarrow> string" where
  "keyOf es = CHR ''/'' # joinWith ''/'' es"

definition enter :: "string list \<Rightarrow> string \<Rightarrow> string list" where
  "enter cur c =
     (if c = [] \<or> c = ''.'' then cur
      else if c = ''..'' then butlast cur
      else cur @ [c])"

fun walk :: "tree \<Rightarrow> string list \<Rightarrow> string list \<Rightarrow> oserr + string list" where
  "walk t cur [] = Inr cur"
| "walk t cur (c # cs) =
     (case t (keyOf cur) of
        None \<Rightarrow> Inl ENOENT
      | Some (File _) \<Rightarrow> Inl ENOTDIR
      | Some Dir \<Rightarrow> walk t (enter cur c) cs)"

definition startOf :: "world \<Rightarrow> string \<Rightarrow> string list" where
  "startOf w p = (if IsAbs p then [] else cleanElems (cwd w))"

definition locate :: "world \<Rightarrow> string \<Rightarrow> oserr + string" where
  "locate w p =
     (if p = [] then Inl ENOENT
      else (case walk (files w) (startOf w p) (splitOn CHR ''/'' p) of
              Inl e \<Rightarrow> Inl e
            | Inr cur \<Rightarrow> Inr (keyOf cur)))"

definition resolve :: "world \<Rightarrow> string \<Rightarrow> string option" where
  "resolve w p = (case locate w p of Inl _ \<Rightarrow> None | Inr k \<Rightarrow> Some k)"

definition Stat :: "world \<Rightarrow> string \<Rightarrow> oserr + node" where
  "Stat w p =
     (case locate w p of
        Inl e \<Rightarrow> Inl e
      | Inr k \<Rightarrow> (case files w k of None \<Rightarrow> Inl ENOENT | Some n \<Rightarrow> Inr n))"

text \<open>\<open>files.FileExists\<close> and \<open>files.IsDir\<close> of go-commons, \<open>files.ReadFileAsString\<close>.\<close>

definition FileExists :: "world \<Rightarrow> string \<Rightarrow> bool" where
  "FileExists w p = (case Stat w p of Inl _ \<Rightarrow> False | Inr _ \<Rightarrow> True)"

definition IsDir :: "world \<Rightarrow> string \<Rightarrow> bool" where
  "IsDir w p = (case Stat w p of Inr Dir \<Rightarrow> True | _ \<Rightarrow> False)"

definition ReadFileAsString :: "world \<Rightarrow> string \<Rightarrow> oserr + string" where
  "ReadFileAsString w p =
     (case Stat w p of
        Inl e \<Rightarrow> Inl e
      | Inr Dir \<Rightarrow> Inl EISDIR
      | Inr (File content) \<Rightarrow> Inr content)"

definition Getwd :: "world \<Rightarrow> oserr + string" where
  "Getwd w = (case getwdErr w of Some e \<Rightarrow> Inl e | None \<Rightarrow> Inr (cwd w))"

definition Abs :: "world \<Rightarrow> string \<Rightarrow> oserr + string" where
  "Abs w p =
     (if IsAbs p then Inr (Clean p)
      else (case Getwd w of
              Inl e \<Rightarrow> Inl e
            | Inr wd \<Rightarrow> Inr (Join [wd, p])))"

text \<open>
  \<open>os.MkdirAll\<close> walks the path like a lookup and makes each directory that is not
  there. A plain file on the way, or a directory that may not be made, stops the call,
  and the directories made before stay.
\<close>

fun mkdirWalk :: "string list \<Rightarrow> tree \<Rightarrow> string list \<Rightarrow> string list \<Rightarrow> oserr option \<times> tree" where
  "mkdirWalk dn t cur [] = (None, t)"
| "mkdirWalk dn t cur (c # cs) =
     (case t (keyOf cur) of
        None \<Rightarrow> (Some ENOENT, t)
      | Some (File _) \<Rightarrow> (Some ENOTDIR, t)
      | Some Dir \<Rightarrow>
          (case t (keyOf (enter cur c)) of
             Some Dir \<Rightarrow> mkdirWalk dn t (enter cur c) cs
           | Some (File _) \<Rightarrow> (Some ENOTDIR, t)
           | None \<Rightarrow>
               if keyOf (enter cur c) \<in> set dn then (Some EACCES, t)
               else mkdirWalk dn (t(keyOf (enter cur c) \<mapsto> Dir)) (enter cur c) cs))"

definition os_MkdirAll :: "string \<Rightarrow> world \<Rightarrow> oserr option \<times> world" where
  "os_MkdirAll p w =
     (let (r, t) = (if p = [] then (Some ENOENT, files w)
                    else mkdirWalk (denied w) (files w) (startOf w p) (splitOn CHR ''/'' p))
      in (r, record_call (MkdirAll p) (map_option OsError r) (w\<lparr>files := t\<rparr>)))"

text \<open>
  \<open>os.RemoveAll\<close>: the empty path is accepted and nothing is removed; a path ending in
  a dot element is refused; a path that is not there is no error. Otherwise the entry
  and everything below it go. An entry that may not be removed stays, with the
  directories that hold it, and the call returns the error after it has removed the
  rest.
\<close>

definition below :: "string \<Rightarrow> string \<Rightarrow> bool" where
  "below k q \<longleftrightarrow> q = k \<or> prefix (if k = ''/'' then k else k @ ''/'') q"

definition endsWithDot :: "string \<Rightarrow> bool" where
  "endsWithDot p \<longleftrightarrow> p = ''.'' \<or> suffix ''/.'' p"

definition stuck :: "world \<Rightarrow> string \<Rightarrow> string \<Rightarrow> bool" where
  "stuck w k q \<longleftrightarrow> list_ex (\<lambda>d. files w d \<noteq> None \<and> below k d \<and> below q d) (denied w)"

definition os_RemoveAll :: "string \<Rightarrow> world \<Rightarrow> oserr option \<times> world" where
  "os_RemoveAll p w =
     (let (r, t) =
        (if p = [] then (None, files w)
         else if endsWithDot p then (Some EINVAL, files w)
         else (case locate w p of
                 Inl e \<Rightarrow> (if e = ENOENT then None else Some e, files w)
               | Inr k \<Rightarrow>
                   if files w k = None then (None, files w)
                   else (if stuck w k k then Some EACCES else None,
                         (\<lambda>q. if below k q \<and> \<not> stuck w k q then None else files w q))))
      in (r, record_call (RemoveAll p) (map_option OsError r) (w\<lparr>files := t\<rparr>)))"

text \<open>
  \<open>os.Create\<close> followed by \<open>Close\<close>: an empty plain file at the path, replacing a plain
  file that is there. The lookup of the path has found the directories on the way.
\<close>

definition os_Create :: "string \<Rightarrow> world \<Rightarrow> oserr option \<times> world" where
  "os_Create p w =
     (let (r, t) =
        (case locate w p of
           Inl e \<Rightarrow> (Some e, files w)
         | Inr k \<Rightarrow>
             if files w k = Some Dir then (Some EISDIR, files w)
             else if k \<in> set (denied w) then (Some EACCES, files w)
             else (None, (files w)(k \<mapsto> File [])))
      in (r, record_call (Create p) (map_option OsError r) (w\<lparr>files := t\<rparr>)))"

section \<open>The catalog module's repository (\<open>command.go\<close>, package \<open>module\<close>)\<close>

definition cloneCompleteSentinel :: string where
  "cloneCompleteSentinel = ''.catalog-clone-complete''"

definition includedGitFiles :: "string list" where
  "includedGitFiles = [''HEAD'', ''config'']"

text \<open>The struct \<open>Repo\<close>; its logger has no effect that is modelled.\<close>

record Repo =
  cloneURL :: string
  path :: string
  RemoteURL :: string
  BranchName :: string
  walkWithSymlinks :: bool
  useCAS :: bool

text \<open>The struct \<open>CloneOptions\<close>, without its context and logger.\<close>

record CloneOptions =
  SourceURL :: string
  TargetPath :: string

text \<open>
  A \<open>*url.URL\<close> as far as \<open>performClone\<close> uses it: \<open>String()\<close> prints what stands
  before the query, then \<open>?\<close> and the query when there is one, then \<open>#\<close> and the
  fragment when there is one.
\<close>

record url =
  Front :: string
  RawQuery :: string
  Fragment :: string

definition url_String :: "url \<Rightarrow> string" where
  "url_String u =
     Front u @ (if RawQuery u = [] then [] else CHR ''?'' # RawQuery u)
             @ (if Fragment u = [] then [] else CHR ''#'' # Fragment u)"

text \<open>
  A loaded ini file: its sections in the order of \<open>SectionStrings()\<close>, each with its
  keys and the values \<open>Key(k).String()\<close> returns. A section or a key that is not there
  reads as the empty string.
\<close>

type_synonym inifile = "(string \<times> (string \<times> string) list) list"

definition SectionStrings :: "inifile \<Rightarrow> string list" where
  "SectionStrings ini = map fst ini"

definition KeyString :: "inifile \<Rightarrow> string \<Rightarrow> string \<Rightarrow> string" where
  "KeyString ini sec k =
     (case map_of ini sec of
        None \<Rightarrow> []
      | Some kvs \<Rightarrow> (case map_of kvs k of None \<Rightarrow> [] | Some v \<Rightarrow> v))"

text \<open>
  The collaborators of the module, which are not part of it: the CAS engine
  (\<open>cas.New\<close> and \<open>Clone\<close>, given the source, the directory and the included git files),
  \<open>tf.ToSourceURL\<close>, go-getter's \<open>Get\<close> (destination, source) and \<open>ini.Load\<close>, which
  reads the file itself and is given what reading it yields, the content or the error.
  The CAS engine and go-getter may change the file tree, also when they fail.
\<close>

record collab =
  cas_New :: "string \<Rightarrow> string \<Rightarrow> string list \<Rightarrow> tree \<Rightarrow> error option \<times> tree"
  cas_Clone :: "string \<Rightarrow> string \<Rightarrow> string list \<Rightarrow> tree \<Rightarrow> error option \<times> tree"
  tf_ToSourceURL :: "string \<Rightarrow> string \<Rightarrow> error + url"
  getter_Get :: "string \<Rightarrow> string \<Rightarrow> tree \<Rightarrow> error option \<times> tree"
  ini_Load :: "oserr + string \<Rightarrow> error + inifile"

definition resolveCloneURL :: "Repo \<Rightarrow> world \<Rightarrow> error + string" where
  "resolveCloneURL repo w =
     (if cloneURL repo = [] then
        (case Getwd w of
           Inl e \<Rightarrow> Inl (WithStack (OsError e))
         | Inr currentDir \<Rightarrow> Inr currentDir)
      else Inr (cloneURL repo))"

definition handleLocalDir :: "string \<Rightarrow> Repo \<Rightarrow> world \<Rightarrow> error option \<times> Repo" where
  "handleLocalDir repoPath repo w =
     (if \<not> IsAbs repoPath then
        (case Abs w repoPath of
           Inl e \<Rightarrow> (Some (WithStack (OsError e)), repo)
         | Inr absRepoPath \<Rightarrow> (None, repo\<lparr>path := absRepoPath\<rparr>))
      else (None, repo\<lparr>path := repoPath\<rparr>))"

definition extractRepoName :: "Repo \<Rightarrow> string" where
  "extractRepoName repo =
     (case repoNameMatch (cloneURL repo) of
        Some m \<Rightarrow> if m \<noteq> [] then m else ''temp''
      | None \<Rightarrow> ''temp'')"

definition sentinelPath :: "Repo \<Rightarrow> string" where
  "sentinelPath repo = Join [path repo, cloneCompleteSentinel]"

definition shouldCleanupIncompleteClone :: "Repo \<Rightarrow> world \<Rightarrow> bool" where
  "shouldCleanupIncompleteClone repo w \<longleftrightarrow>
     FileExists w (path repo) \<and> \<not> FileExists w (sentinelPath repo)"

definition prepareCloneDirectory ::
  "Repo \<Rightarrow> CloneOptions \<Rightarrow> world \<Rightarrow> error option \<times> Repo \<times> world" where
  "prepareCloneDirectory repo opts w =
     (case os_MkdirAll (TargetPath opts) w of
        (Some e, w1) \<Rightarrow> (Some (WithStack (OsError e)), repo, w1)
      | (None, w1) \<Rightarrow>
          (let repo1 = repo\<lparr>path := Join [TargetPath opts, extractRepoName repo]\<rparr> in
           if shouldCleanupIncompleteClone repo1 w1 then
             (case os_RemoveAll (path repo1) w1 of
                (Some e, w2) \<Rightarrow> (Some (WithStack (OsError e)), repo1, w2)
              | (None, w2) \<Rightarrow> (None, repo1, w2))
           else (None, repo1, w1)))"

text \<open>The last lines of both branches of \<open>performClone\<close>: the sentinel file.\<close>

definition createSentinel :: "Repo \<Rightarrow> world \<Rightarrow> error option \<times> Repo \<times> world" where
  "createSentinel repo w =
     (case os_Create (sentinelPath repo) w of
        (Some e, w1) \<Rightarrow> (Some (WithStack (OsError e)), repo, w1)
      | (None, w1) \<Rightarrow> (None, repo, w1))"

definition sourceErr :: "error + url \<Rightarrow> error option" where
  "sourceErr r = (case r of Inl e \<Rightarrow> Some e | Inr _ \<Rightarrow> None)"

definition performClone ::
  "collab \<Rightarrow> Repo \<Rightarrow> CloneOptions \<Rightarrow> world \<Rightarrow> error option \<times> Repo \<times> world" where
  "performClone c repo opts w =
     (if useCAS repo then
        (let (r1, t1) = cas_New c (SourceURL opts) (path repo) includedGitFiles (files w);
             w1 = record_call (CasNew (SourceURL opts) (path repo)) r1 (w\<lparr>files := t1\<rparr>)
         in case r1 of
              Some e \<Rightarrow> (Some e, repo, w1)
            | None \<Rightarrow>
                (let (r2, t2) = cas_Clone c (SourceURL opts) (path repo) includedGitFiles (files w1);
                     w2 = record_call (CasClone (SourceURL opts) (path repo)) r2 (w1\<lparr>files := t2\<rparr>)
                 in case r2 of
                      Some e \<Rightarrow> (Some e, repo, w2)
                    | None \<Rightarrow> createSentinel repo w2))
      else
        (let r1 = tf_ToSourceURL c (SourceURL opts) [];
             w1 = record_call (ToSourceURL (SourceURL opts)) (sourceErr r1) w
         in case r1 of
              Inl e \<Rightarrow> (Some e, repo, w1)
            | Inr sourceURL \<Rightarrow>
                (let repo1 = repo\<lparr>cloneURL := url_String sourceURL\<rparr>;
                     src = TrimSlashes (url_String (sourceURL\<lparr>RawQuery := ''ref=HEAD''\<rparr>));
                     (r2, t2) = getter_Get c (path repo1) src (files w1);
                     w2 = record_call (GetterGet (path repo1) src) r2 (w1\<lparr>files := t2\<rparr>)
                 in case r2 of
                      Some e \<Rightarrow> (Some e, repo1, w2)
                    | None \<Rightarrow> createSentinel repo1 w2)))"

text \<open>
  \<open>clone\<close> resolves the source and goes on with it: \<open>cloneFrom\<close> is the body of
  \<open>clone\<close> after the call of \<open>resolveCloneURL\<close>, with the resolved source.
\<close>

definition cloneFrom ::
  "collab \<Rightarrow> string \<Rightarrow> Repo \<Rightarrow> world \<Rightarrow> error option \<times> Repo \<times> world" where
  "cloneFrom c url repo w =
     (if IsDir w url then
        (let (r, repo1) = handleLocalDir url repo w in (r, repo1, w))
      else
        (let opts = \<lparr>SourceURL = url, TargetPath = path repo\<rparr> in
         case prepareCloneDirectory repo opts w of
           (Some e, repo1, w1) \<Rightarrow> (Some e, repo1, w1)
         | (None, repo1, w1) \<Rightarrow> performClone c repo1 opts w1))"

definition clone :: "collab \<Rightarrow> Repo \<Rightarrow> world \<Rightarrow> error option \<times> Repo \<times> world" where
  "clone c repo w =
     (case resolveCloneURL repo w of
        Inl e \<Rightarrow> (Some e, repo, w)
      | Inr url \<Rightarrow> cloneFrom c url repo w)"

text \<open>
  The loop of \<open>parseRemoteURL\<close> over the section names, with the value of
  \<open>sectionName\<close> so far: a name that does not start with \<open>remote\<close> is skipped, any other
  is assigned, and the loop stops at \<open>remote "origin"\<close>.
\<close>

fun remoteSectionLoop :: "string \<Rightarrow> string list \<Rightarrow> string" where
  "remoteSectionLoop sectionName [] = sectionName"
| "remoteSectionLoop sectionName (name # names) =
     (if \<not> HasPrefix name ''remote'' then remoteSectionLoop sectionName names
      else if name = ''remote '' @ [CHR 0x22] @ ''origin'' @ [CHR 0x22] then name
      else remoteSectionLoop name names)"

definition parseRemoteURL :: "collab \<Rightarrow> Repo \<Rightarrow> world \<Rightarrow> error option \<times> Repo" where
  "parseRemoteURL c repo w =
     (let gitConfigPath = Join [path repo, ''.git'', ''config''] in
      if \<not> FileExists w gitConfigPath then
        (Some (Errorf ''the specified path %q is not a git repository (no .git/config file found)''
                 [path repo]), repo)
      else
        (case ini_Load c (ReadFileAsString w gitConfigPath) of
           Inl e \<Rightarrow> (Some (WithStack e), repo)
         | Inr inidata \<Rightarrow>
             (let sectionName = remoteSectionLoop [] (SectionStrings inidata) in
              if sectionName = [] then (None, repo)
              else (None, repo\<lparr>RemoteURL := KeyString inidata sectionName ''url''\<rparr>))))"

definition gitHeadfile :: "Repo \<Rightarrow> string" where
  "gitHeadfile repo = Join [path repo, ''.git'', ''HEAD'']"

definition parseBranchName :: "Repo \<Rightarrow> world \<Rightarrow> error option \<times> Repo" where
  "parseBranchName repo w =
     (case ReadFileAsString w (gitHeadfile repo) of
        Inl _ \<Rightarrow>
          (Some (Errorf ''the specified path %q is not a git repository (no .git/HEAD file found)''
                   [path repo]), repo)
      | Inr data \<Rightarrow>
          (case headBranchMatch data of
             Some m \<Rightarrow> (None, repo\<lparr>BranchName := TrimSpace m\<rparr>)
           | None \<Rightarrow> (Some (Errorf ''could not get branch name for repo %q'' [path repo]), repo)))"

text \<open>
  \<open>NewRepo\<close> returns the repository or the error, never both, and the world as the
  calls left it. \<open>buildRepo\<close> is its second half, from the struct literal on.
\<close>

definition buildRepo ::
  "collab \<Rightarrow> string \<Rightarrow> string \<Rightarrow> bool \<Rightarrow> bool \<Rightarrow> world \<Rightarrow> (error + Repo) \<times> world" where
  "buildRepo c url tempDir walkSymlinks cas w =
     (let repo = \<lparr>cloneURL = url, path = tempDir, RemoteURL = [], BranchName = [],
                  walkWithSymlinks = walkSymlinks, useCAS = cas\<rparr>
      in case clone c repo w of
           (Some e, _, w1) \<Rightarrow> (Inl e, w1)
         | (None, repo1, w1) \<Rightarrow>
             (case parseRemoteURL c repo1 w1 of
                (Some e, _) \<Rightarrow> (Inl e, w1)
              | (None, repo2) \<Rightarrow>
                  (case parseBranchName repo2 w1 of
                     (Some e, _) \<Rightarrow> (Inl e, w1)
                   | (None, repo3) \<Rightarrow> (Inr repo3, w1))))"

definition NewRepo ::
  "collab \<Rightarrow> string \<Rightarrow> string \<Rightarrow> bool \<Rightarrow> bool \<Rightarrow> world \<Rightarrow> (error + Repo) \<times> world" where
  "NewRepo c url tempDir walkSymlinks allowCAS w =
     (if HasPrefix url ''cas://'' then
        (let url1 = TrimPrefix url ''cas://'' in
         if \<not> allowCAS then
           (Inl (Errorf ''cas:// protocol is not allowed without using the `cas` experiment. Please enable the experiment and try again.'' []), w)
         else buildRepo c url1 tempDir walkSymlinks True w)
      else buildRepo c url tempDir walkSymlinks False w)"


section \<open>The git protocol client and the content store\<close>

text \<open>
  Modelled from the spec: the package of the protocol client (\<open>GitRunner\<close>, the spec's
  GitProcessClient) and of the content store is not among the sources; only its tests
  and benchmarks are. The definitions of this section follow sections 3, 4.1, 4.2, 6
  and 7 of the specification.
\<close>

datatype sentinel =
    ErrNoWorkDir
  | ErrCommandSpawn
  | ErrNoMatchingReference
  | ErrGitClone
  | ErrReadTree

record WrappedError =
  Sentinel :: sentinel
  Context :: string

record GitRef =
  Hash :: string
  Ref :: string

record TreeEntry =
  Mode :: string
  Type :: string
  EntryHash :: string
  Path :: string

text \<open>
  Modelled from the spec: the git binary as a protocol (section 9: request in, result
  out). A request is one of the plumbing commands; the answer is that the process could
  not be started, or its exit code and its standard output.
\<close>

datatype gitRequest =
    LsRemoteReq string string
  | CloneReq string "int option" string
  | LsTreeReq string string
  | CatFileReq string

datatype procResult = SpawnFailed string | Exited nat string

type_synonym git = "string option \<Rightarrow> gitRequest \<Rightarrow> procResult"

text \<open>
  Modelled from the spec: the client is stateless except for an optional bound working
  directory; \<open>WithWorkDir\<close> returns a new client bound to the path and leaves the
  receiver as it is; \<open>RequiresWorkDir\<close> is the precondition check.
\<close>

record GitProcessClient =
  WorkDir :: "string option"

definition NewGitRunner :: GitProcessClient where
  "NewGitRunner = \<lparr>WorkDir = None\<rparr>"

definition WithWorkDir :: "GitProcessClient \<Rightarrow> string \<Rightarrow> GitProcessClient" where
  "WithWorkDir g dir = g\<lparr>WorkDir := Some dir\<rparr>"

definition RequiresWorkDir :: "GitProcessClient \<Rightarrow> WrappedError option" where
  "RequiresWorkDir g =
     (case WorkDir g of
        None \<Rightarrow> Some \<lparr>Sentinel = ErrNoWorkDir, Context = ''check_work_dir''\<rparr>
      | Some _ \<Rightarrow> None)"

text \<open>
  Modelled from the spec: the output of the remote reference listing has one line
  \<open><hash><TAB><ref-name>\<close> per reference, that of the recursive tree listing one line
  \<open><mode> <type> <hash><TAB><path>\<close> per entry. Lines of another shape are skipped.
\<close>

definition parseRefLine :: "string \<Rightarrow> GitRef option" where
  "parseRefLine ln =
     (case splitOn (CHR 0x09) ln of
        [h, r] \<Rightarrow> if h \<noteq> [] \<and> r \<noteq> [] then Some \<lparr>Hash = h, Ref = r\<rparr> else None
      | _ \<Rightarrow> None)"

definition parseRefs :: "string \<Rightarrow> GitRef list" where
  "parseRefs out = List.map_filter parseRefLine (splitOn (CHR 0x0A) out)"

definition parseTreeLine :: "string \<Rightarrow> TreeEntry option" where
  "parseTreeLine ln =
     (case splitOn (CHR 0x09) ln of
        [meta, p] \<Rightarrow>
          (case splitOn CHR '' '' meta of
             [m, t, h] \<Rightarrow> Some \<lparr>Mode = m, Type = t, EntryHash = h, Path = p\<rparr>
           | _ \<Rightarrow> None)
      | _ \<Rightarrow> None)"

definition parseTree :: "string \<Rightarrow> TreeEntry list" where
  "parseTree out = List.map_filter parseTreeLine (splitOn (CHR 0x0A) out)"

text \<open>
  Modelled from the spec: \<open>LsRemote\<close> needs no working directory; it fails with
  \<open>ErrCommandSpawn\<close> when the process fails (the remote is unreachable, misnamed or
  asks for credentials that are not there) and with \<open>ErrNoMatchingReference\<close> when the
  remote answered and no reference matched. \<open>Clone\<close> and \<open>LsTree\<close> require a bound
  working directory; they fail with \<open>ErrGitClone\<close> and \<open>ErrReadTree\<close> on a failure of
  the command.
\<close>

definition LsRemote ::
  "git \<Rightarrow> GitProcessClient \<Rightarrow> string \<Rightarrow> string \<Rightarrow> WrappedError + GitRef list" where
  "LsRemote run g remoteURL refPattern =
     (case run (WorkDir g) (LsRemoteReq remoteURL refPattern) of
        SpawnFailed why \<Rightarrow> Inl \<lparr>Sentinel = ErrCommandSpawn, Context = why\<rparr>
      | Exited code out \<Rightarrow>
          if code \<noteq> 0 then Inl \<lparr>Sentinel = ErrCommandSpawn, Context = out\<rparr>
          else (case parseRefs out of
                  [] \<Rightarrow> Inl \<lparr>Sentinel = ErrNoMatchingReference, Context = refPattern\<rparr>
                | refs \<Rightarrow> Inr refs))"

definition Clone ::
  "git \<Rightarrow> GitProcessClient \<Rightarrow> string \<Rightarrow> bool \<Rightarrow> int \<Rightarrow> string \<Rightarrow> WrappedError option" where
  "Clone run g remoteURL shallow depth branch =
     (case RequiresWorkDir g of
        Some e \<Rightarrow> Some e
      | None \<Rightarrow>
          (case run (WorkDir g)
                  (CloneReq remoteURL (if shallow \<and> depth > 0 then Some depth else None) branch) of
             SpawnFailed why \<Rightarrow> Some \<lparr>Sentinel = ErrGitClone, Context = why\<rparr>
           | Exited code out \<Rightarrow>
               if code \<noteq> 0 then Some \<lparr>Sentinel = ErrGitClone, Context = out\<rparr> else None))"

definition LsTree ::
  "git \<Rightarrow> GitProcessClient \<Rightarrow> string \<Rightarrow> string \<Rightarrow> WrappedError + TreeEntry list" where
  "LsTree run g ref dir =
     (case RequiresWorkDir g of
        Some e \<Rightarrow> Inl e
      | None \<Rightarrow>
          (case run (WorkDir g) (LsTreeReq ref dir) of
             SpawnFailed why \<Rightarrow> Inl \<lparr>Sentinel = ErrReadTree, Context = why\<rparr>
           | Exited code out \<Rightarrow>
               if code \<noteq> 0 then Inl \<lparr>Sentinel = ErrReadTree, Context = out\<rparr>
               else Inr (parseTree out)))"

text \<open>
  Modelled from the spec: the remote side of \<open>LsRemote\<close>. A remote is unreachable,
  misnamed, asks for credentials that are not there, or is reachable and advertises its
  references. Asked for the references of a reachable remote, git prints a line for
  each reference the pattern matches and exits with 0; for any other remote it exits
  with 128. Which names a pattern matches is left to \<open>matches\<close>.
\<close>

datatype remote = Unreachable | Misnamed | AuthUnavailable | Reachable "GitRef list"

definition refLine :: "GitRef \<Rightarrow> string" where
  "refLine r = Hash r @ [CHR 0x09] @ Ref r @ [CHR 0x0A]"

definition gitOver :: "(string \<Rightarrow> remote) \<Rightarrow> (string \<Rightarrow> string \<Rightarrow> bool) \<Rightarrow> git" where
  "gitOver net matches dir req =
     (case req of
        LsRemoteReq remoteURL refPattern \<Rightarrow>
          (case net remoteURL of
             Reachable refs \<Rightarrow>
               Exited 0 (concat (map refLine (filter (\<lambda>r. matches refPattern (Ref r)) refs)))
           | _ \<Rightarrow> Exited 128 ''fatal: could not read from remote repository'')
      | _ \<Rightarrow> Exited 128 ''fatal: not a git repository'')"





section \<open>Observations on a run\<close>

text \<open>
  Predicates on the recorded calls. \<open>isCreate\<close> holds of the creation of a file, the
  only one the module makes being that of the sentinel; \<open>viaGetter\<close> holds of the two
  calls of the go-getter branch of \<open>performClone\<close>.
\<close>

definition isCreate :: "call \<Rightarrow> bool" where
  "isCreate c = (case c of Create _ \<Rightarrow> True | _ \<Rightarrow> False)"

definition viaGetter :: "call \<Rightarrow> bool" where
  "viaGetter c = (case c of ToSourceURL _ \<Rightarrow> True | GetterGet _ _ \<Rightarrow> True | _ \<Rightarrow> False)"

text \<open>
  The fetch step of a clone, said on the collaborators alone, for the properties below
  to compare \<open>clone\<close> and \<open>NewRepo\<close> with: from a source, a directory and a file tree it
  gives the error of the step if it failed, the tree the collaborators left and the
  calls made, in order. With the CAS engine: \<open>cas.New\<close> on the source, the directory and
  the included git files and, only when that succeeded, the engine's \<open>Clone\<close> on the
  tree \<open>cas.New\<close> left. With go-getter: \<open>tf.ToSourceURL\<close> on the source and, only when that
  succeeded, \<open>Get\<close> into the directory from the URL it returned, with the query
  \<open>ref=HEAD\<close> and without slashes at either end.
\<close>

definition casFetch :: "collab \<Rightarrow> string \<Rightarrow> string \<Rightarrow> tree \<Rightarrow> error option \<times> tree \<times> event list" where
  "casFetch c src dir t =
     (case cas_New c src dir includedGitFiles t of
        (Some e, t1) \<Rightarrow> (Some e, t1, [(CasNew src dir, Some e)])
      | (None, t1) \<Rightarrow>
          (case cas_Clone c src dir includedGitFiles t1 of
             (r2, t2) \<Rightarrow> (r2, t2, [(CasNew src dir, None), (CasClone src dir, r2)])))"

definition getterFetch :: "collab \<Rightarrow> string \<Rightarrow> string \<Rightarrow> tree \<Rightarrow> error option \<times> tree \<times> event list" where
  "getterFetch c src dir t =
     (case tf_ToSourceURL c src [] of
        Inl e \<Rightarrow> (Some e, t, [(ToSourceURL src, Some e)])
      | Inr u \<Rightarrow>
          (let headURL = TrimSlashes (url_String (u\<lparr>RawQuery := ''ref=HEAD''\<rparr>)) in
           case getter_Get c dir headURL t of
             (r2, t2) \<Rightarrow> (r2, t2, [(ToSourceURL src, None), (GetterGet dir headURL, r2)])))"

text \<open>The world after a fetch step that left the tree \<open>t\<close> and made the calls \<open>evs\<close>.\<close>

definition fetched :: "world \<Rightarrow> tree \<Rightarrow> event list \<Rightarrow> world" where
  "fetched w t evs = w\<lparr>files := t, trace := trace w @ evs\<rparr>"

definition originSection :: string where
  "originSection = ''remote '' @ [CHR 0x22] @ ''origin'' @ [CHR 0x22]"

section \<open>Scenarios\<close>

text \<open>
  Concrete repositories, file trees, collaborators, remotes and stores on which the
  properties below are exercised. An object hash is a non-empty string of lower-case
  hexadecimal digits.
\<close>

definition isHexDigit :: "char \<Rightarrow> bool" where
  "isHexDigit c \<longleftrightarrow>
     (48 \<le> (of_char c :: nat) \<and> (of_char c :: nat) \<le> 57) \<or>
     (97 \<le> (of_char c :: nat) \<and> (of_char c :: nat) \<le> 102)"

definition isHash :: "string \<Rightarrow> bool" where
  "isHash h \<longleftrightarrow> h \<noteq> [] \<and> list_all isHexDigit h"

definition emptyRepo :: Repo where
  "emptyRepo = \<lparr>cloneURL = [], path = [], RemoteURL = [], BranchName = [],
                 walkWithSymlinks = False, useCAS = False\<rparr>"

definition remoteRepo :: Repo where
  "remoteRepo = emptyRepo\<lparr>cloneURL := ''https://github.com/acme/mod'', path := ''/cache''\<rparr>"

definition remoteOpts :: CloneOptions where
  "remoteOpts = \<lparr>SourceURL = ''https://github.com/acme/mod'', TargetPath = ''/cache''\<rparr>"

definition clonedRepo :: Repo where
  "clonedRepo = remoteRepo\<lparr>path := ''/cache/mod''\<rparr>"

definition worldOf :: "(string \<times> node) list \<Rightarrow> world" where
  "worldOf entries =
     \<lparr>files = map_of entries, cwd = ''/work'', getwdErr = None, denied = [], trace = []\<rparr>"

definition headOnBranch :: world where
  "headOnBranch =
     worldOf [(''/'', Dir), (''/cache'', Dir), (''/cache/mod'', Dir), (''/cache/mod/.git'', Dir),
              (''/cache/mod/.git/HEAD'', File (''ref: refs/heads/main'' @ [CHR 0x0A]))]"

definition headDetached :: world where
  "headDetached =
     worldOf [(''/'', Dir), (''/cache'', Dir), (''/cache/mod'', Dir), (''/cache/mod/.git'', Dir),
              (''/cache/mod/.git/HEAD'',
                 File (''4f2c9a1be07d35c6a8e1f90b2d4c6e8a0b1c3d5e'' @ [CHR 0x0A]))]"

definition freshCache :: world where
  "freshCache = worldOf [(''/'', Dir), (''/cache'', Dir)]"

definition partialClone :: world where
  "partialClone =
     worldOf [(''/'', Dir), (''/cache'', Dir), (''/cache/mod'', Dir),
              (''/cache/mod/main.tf'', File ''# half written''),
              (''/cache/other'', Dir)]"

definition completeClone :: world where
  "completeClone =
     worldOf [(''/'', Dir), (''/cache'', Dir), (''/cache/mod'', Dir),
              (''/cache/mod/main.tf'', File ''# module''),
              (''/cache/mod/.catalog-clone-complete'', File [])]"

definition localModule :: world where
  "localModule =
     worldOf [(''/'', Dir), (''/work'', Dir), (''/work/.git'', Dir),
              (''/work/.git/HEAD'', File (''ref: refs/heads/main'' @ [CHR 0x0A])),
              (''/work/.git/config'', File [])]"

definition bareModule :: world where
  "bareModule =
     worldOf [(''/'', Dir), (''/srv'', Dir), (''/srv/mod'', Dir), (''/srv/mod/.git'', Dir),
              (''/srv/mod/.git/HEAD'', File (''ref: refs/heads/main'' @ [CHR 0x0A])),
              (''/srv/mod/.git/config'', File [])]"

text \<open>
  \<open>sealedCache\<close>: the completion marker of the module may not be created. \<open>lostModule\<close>:
  the working directory cannot be determined.
\<close>

definition sealedCache :: world where
  "sealedCache = freshCache\<lparr>denied := [''/cache/mod/.catalog-clone-complete'']\<rparr>"

definition lostModule :: world where
  "lostModule = localModule\<lparr>getwdErr := Some ENOENT\<rparr>"

text \<open>Two git configurations, as text and as the ini parser loads them.\<close>

definition originConfigText :: string where
  "originConfigText =
     ''[core]'' @ [CHR 0x0A] @ ''bare = false'' @ [CHR 0x0A] @
     ''[remote '' @ [CHR 0x22] @ ''origin'' @ [CHR 0x22] @ '']'' @ [CHR 0x0A] @
     ''url = https://github.com/acme/mod.git'' @ [CHR 0x0A]"

definition originConfig :: inifile where
  "originConfig =
     [(''DEFAULT'', []),
      (''core'', [(''bare'', ''false'')]),
      (''remote '' @ [CHR 0x22] @ ''origin'' @ [CHR 0x22],
         [(''url'', ''https://github.com/acme/mod.git'')])]"

definition forkConfigText :: string where
  "forkConfigText =
     ''[remote '' @ [CHR 0x22] @ ''upstream'' @ [CHR 0x22] @ '']'' @ [CHR 0x0A] @
     ''url = https://github.com/acme/mod.git'' @ [CHR 0x0A] @
     ''[remote '' @ [CHR 0x22] @ ''fork'' @ [CHR 0x22] @ '']'' @ [CHR 0x0A] @
     ''url = https://github.com/dev/mod.git'' @ [CHR 0x0A]"

definition forkConfig :: inifile where
  "forkConfig =
     [(''DEFAULT'', []),
      (''remote '' @ [CHR 0x22] @ ''upstream'' @ [CHR 0x22],
         [(''url'', ''https://github.com/acme/mod.git'')]),
      (''remote '' @ [CHR 0x22] @ ''fork'' @ [CHR 0x22],
         [(''url'', ''https://github.com/dev/mod.git'')])]"

definition forkedClone :: world where
  "forkedClone =
     worldOf [(''/'', Dir), (''/cache'', Dir), (''/cache/mod'', Dir), (''/cache/mod/.git'', Dir),
              (''/cache/mod/.git/HEAD'', File (''ref: refs/heads/main'' @ [CHR 0x0A])),
              (''/cache/mod/.git/config'', File forkConfigText)]"

text \<open>
  \<open>quietCollab\<close>: every collaborator succeeds, and a fetch leaves a working tree with
  the two git files in the directory. \<open>offlineCollab\<close>: both fetches fail and leave the
  empty directory they had made.
\<close>

definition checkout :: "string \<Rightarrow> tree \<Rightarrow> tree" where
  "checkout dir t =
     t(dir \<mapsto> Dir, dir @ ''/.git'' \<mapsto> Dir,
       dir @ ''/.git/HEAD'' \<mapsto> File (''ref: refs/heads/main'' @ [CHR 0x0A]),
       dir @ ''/.git/config'' \<mapsto> File originConfigText)"

definition quietCollab :: collab where
  "quietCollab =
     \<lparr>cas_New = (\<lambda>src dir incl t. (None, t)),
      cas_Clone = (\<lambda>src dir incl t. (None, checkout dir t)),
      tf_ToSourceURL = (\<lambda>src wd. Inr \<lparr>Front = src, RawQuery = [], Fragment = []\<rparr>),
      getter_Get = (\<lambda>dst src t. (None, checkout dst t)),
      ini_Load = (\<lambda>got. case got of
                           Inl e \<Rightarrow> Inl (Foreign ''ini: cannot read the file'')
                         | Inr content \<Rightarrow>
                             if content = originConfigText then Inr originConfig
                             else if content = forkConfigText then Inr forkConfig
                             else Inr [(''DEFAULT'', [])])\<rparr>"

definition offlineCollab :: collab where
  "offlineCollab =
     quietCollab
       \<lparr>cas_Clone := (\<lambda>src dir incl t. (Some (Foreign ''network unreachable''), t(dir \<mapsto> Dir))),
        getter_Get := (\<lambda>dst src t. (Some (Foreign ''network unreachable''), t(dst \<mapsto> Dir)))\<rparr>"

text \<open>A network with one repository, a matching of patterns, and a store.\<close>

definition sampleNet :: "string \<Rightarrow> remote" where
  "sampleNet remoteURL =
     (if remoteURL = ''https://github.com/gruntwork-io/terragrunt.git''
      then Reachable [\<lparr>Hash = ''4f2c9a1be07d35c6a8e1f90b2d4c6e8a0b1c3d5e'', Ref = ''HEAD''\<rparr>,
                      \<lparr>Hash = ''4f2c9a1be07d35c6a8e1f90b2d4c6e8a0b1c3d5e'', Ref = ''refs/heads/main''\<rparr>]
      else Misnamed)"

definition exactRef :: "string \<Rightarrow> string \<Rightarrow> bool" where
  "exactRef refPattern name \<longleftrightarrow> name = refPattern \<or> suffix (CHR ''/'' # refPattern) name"


section \<open>Rules for evaluating the model on the scenarios\<close>

lemmas path_defs = Join_def Clean_def cleanElems_def IsAbs_def

lemmas os_defs = ReadFileAsString_def Stat_def FileExists_def IsDir_def resolve_def locate_def
  startOf_def keyOf_def enter_def worldOf_def

lemmas run_defs = prepareCloneDirectory_def shouldCleanupIncompleteClone_def sentinelPath_def
  cloneCompleteSentinel_def extractRepoName_def isNameChar_def os_MkdirAll_def os_RemoveAll_def
  os_Create_def endsWithDot_def stuck_def suffix_def below_def prefix_def record_call_def

lemmas clone_defs = performClone_def createSentinel_def sourceErr_def url_String_def
  TrimSlashes_def includedGitFiles_def clone_def cloneFrom_def resolveCloneURL_def
  handleLocalDir_def casFetch_def getterFetch_def fetched_def

lemmas parse_defs = Let_def parseRemoteURL_def parseBranchName_def gitHeadfile_def
  SectionStrings_def KeyString_def HasPrefix_def TrimPrefix_def TrimSpace_def spaceRunes_def
  trimLeftBy.simps

lemmas scenario_defs = quietCollab_def offlineCollab_def checkout_def originConfigText_def
  originConfig_def forkConfigText_def forkConfig_def emptyRepo_def remoteRepo_def
  remoteOpts_def clonedRepo_def

section \<open>Properties of the string functions\<close>

lemma trimLeftBy_none:
  "List.find (\<lambda>q. q \<noteq> [] \<and> prefix q s) seqs = None \<Longrightarrow> trimLeftBy seqs s = s"
  by (subst trimLeftBy.simps) simp

lemma spaceRunes_lead: "list_all (\<lambda>q. \<not> isHexDigit (hd q)) spaceRunes"
  by (simp add: isHexDigit_def spaceRunes_def)

lemma spaceRunes_last: "list_all (\<lambda>q. \<not> isHexDigit (hd q)) (map rev spaceRunes)"
  by (simp add: isHexDigit_def spaceRunes_def)

lemma trimLeftBy_keeps:
  assumes "list_all (\<lambda>q. \<not> P (hd q)) seqs" and "P c"
  shows "trimLeftBy seqs (c # cs) = c # cs"
proof (rule trimLeftBy_none)
  have "\<not> (q \<noteq> [] \<and> prefix q (c # cs))" if "q \<in> set seqs" for q
  proof
    assume a: "q \<noteq> [] \<and> prefix q (c # cs)"
    then have "hd q = c"
      by (cases q) auto
    moreover from assms(1) that have "\<not> P (hd q)"
      by (simp add: list_all_iff)
    ultimately show False
      using assms(2) by simp
  qed
  then show "List.find (\<lambda>q. q \<noteq> [] \<and> prefix q (c # cs)) seqs = None"
    by (simp add: find_None_iff)
qed

lemma trimLeft_hex: "isHexDigit c \<Longrightarrow> trimLeftBy spaceRunes (c # cs) = c # cs"
  by (rule trimLeftBy_keeps [OF spaceRunes_lead])

lemma trimRight_hex: "isHexDigit c \<Longrightarrow> trimLeftBy (map rev spaceRunes) (c # cs) = c # cs"
  by (rule trimLeftBy_keeps [OF spaceRunes_last])

lemma trimRight_newline_hex:
  assumes "isHexDigit c"
  shows "trimLeftBy (map rev spaceRunes) (CHR 0x0A # c # cs) = c # cs"
proof -
  have found: "List.find (\<lambda>q. q \<noteq> [] \<and> prefix q (CHR 0x0A # c # cs)) (map rev spaceRunes)
      = Some [CHR 0x0A]"
    by (simp add: spaceRunes_def)
  have "trimLeftBy (map rev spaceRunes) (CHR 0x0A # c # cs)
      = trimLeftBy (map rev spaceRunes) (c # cs)"
    by (subst trimLeftBy.simps) (simp only: found option.case, simp)
  then show ?thesis
    using assms by (simp add: trimRight_hex)
qed

lemma TrimSpace_hash:
  assumes "isHash h" and "nl = [] \<or> nl = [CHR 0x0A]"
  shows "TrimSpace (h @ nl) = h"
proof -
  from assms(1) obtain c cs where h: "h = c # cs" and c: "isHexDigit c"
    by (cases h) (auto simp: isHash_def)
  from assms(1) obtain d ds where r: "rev h = d # ds" and d: "isHexDigit d"
    by (cases h rule: rev_cases) (auto simp: isHash_def)
  have left: "trimLeftBy spaceRunes (h @ nl) = h @ nl"
    using c by (simp add: h trimLeft_hex)
  have "trimLeftBy (map rev spaceRunes) (rev (h @ nl)) = rev h"
    using assms(2) d by (auto simp: r trimRight_hex trimRight_newline_hex)
  then show ?thesis
    by (simp add: TrimSpace_def left)
qed

lemma headBranchMatch_no_slash:
  "s \<noteq> [] \<Longrightarrow> CHR ''/'' \<notin> set s \<Longrightarrow> headBranchMatch s = Some s"
  by (cases s) auto

lemma slash_not_hex: "\<not> isHexDigit (CHR ''/'')"
  by (simp add: isHexDigit_def)

lemma hash_no_slash: "isHash h \<Longrightarrow> CHR ''/'' \<notin> set h"
  using slash_not_hex by (auto simp: isHash_def list_all_iff)

lemma headBranchMatch_ref:
  "branch \<noteq> [] \<Longrightarrow> CHR ''/'' \<notin> set branch \<Longrightarrow>
   headBranchMatch (''ref: refs/heads/'' @ branch) = Some branch"
  by (simp add: headBranchMatch_no_slash)

lemma headBranchMatch_hash:
  assumes "isHash h" and "nl = [] \<or> nl = [CHR 0x0A]"
  shows "headBranchMatch (h @ nl) = Some (h @ nl)"
proof (rule headBranchMatch_no_slash)
  show "h @ nl \<noteq> []" using assms(1) by (simp add: isHash_def)
  show "CHR ''/'' \<notin> set (h @ nl)" using assms hash_no_slash [of h] by auto
qed

section \<open>The branch name read from the HEAD file\<close>

text \<open>
  C9. When the HEAD file of the repository reads \<open>ref: refs/heads/<branch>\<close>, with a
  non-empty \<open><branch>\<close> that holds no slash (a final newline belongs to it),
  \<open>parseBranchName\<close> succeeds and \<open>BranchName\<close> is \<open><branch>\<close> with the white space
  around it trimmed. When the file holds only an object hash, followed by a newline or
  not, \<open>parseBranchName\<close> succeeds and \<open>BranchName\<close> is that hash.
\<close>

theorem parseBranchName_head_file:
  "(ReadFileAsString w (gitHeadfile repo) = Inr (''ref: refs/heads/'' @ branch) \<and>
    branch \<noteq> [] \<and> CHR ''/'' \<notin> set branch \<longrightarrow>
      parseBranchName repo w = (None, repo\<lparr>BranchName := TrimSpace branch\<rparr>)) \<and>
   (ReadFileAsString w (gitHeadfile repo) = Inr (h @ nl) \<and>
    isHash h \<and> (nl = [] \<or> nl = [CHR 0x0A]) \<longrightarrow>
      parseBranchName repo w = (None, repo\<lparr>BranchName := h\<rparr>))"
proof (intro conjI impI)
  assume a: "ReadFileAsString w (gitHeadfile repo) = Inr (''ref: refs/heads/'' @ branch) \<and>
    branch \<noteq> [] \<and> CHR ''/'' \<notin> set branch"
  then have "headBranchMatch (''ref: refs/heads/'' @ branch) = Some branch"
    by (intro headBranchMatch_ref) auto
  with a show "parseBranchName repo w = (None, repo\<lparr>BranchName := TrimSpace branch\<rparr>)"
    unfolding parseBranchName_def by simp
next
  assume a: "ReadFileAsString w (gitHeadfile repo) = Inr (h @ nl) \<and>
    isHash h \<and> (nl = [] \<or> nl = [CHR 0x0A])"
  then have m: "headBranchMatch (h @ nl) = Some (h @ nl)"
    by (intro headBranchMatch_hash) auto
  from a have "TrimSpace (h @ nl) = h"
    by (intro TrimSpace_hash) auto
  with a m show "parseBranchName repo w = (None, repo\<lparr>BranchName := h\<rparr>)"
    unfolding parseBranchName_def by simp
qed


theorem parseBranchName_head_file_witness:
  "parseBranchName (emptyRepo\<lparr>path := ''/cache/mod''\<rparr>) headOnBranch
     = (None, emptyRepo\<lparr>path := ''/cache/mod'', BranchName := ''main''\<rparr>) \<and>
   parseBranchName (emptyRepo\<lparr>path := ''/cache/mod''\<rparr>) headDetached
     = (None, emptyRepo\<lparr>path := ''/cache/mod'',
          BranchName := ''4f2c9a1be07d35c6a8e1f90b2d4c6e8a0b1c3d5e''\<rparr>)"
proof -
  let ?repo = "emptyRepo\<lparr>path := ''/cache/mod''\<rparr>"
  have hf: "gitHeadfile ?repo = ''/cache/mod/.git/HEAD''"
    by (simp add: gitHeadfile_def path_defs)
  have r1: "ReadFileAsString headOnBranch (gitHeadfile ?repo)
      = Inr (''ref: refs/heads/'' @ (''main'' @ [CHR 0x0A]))"
    unfolding hf by (simp add: os_defs path_defs headOnBranch_def)
  have r2: "ReadFileAsString headDetached (gitHeadfile ?repo)
      = Inr (''4f2c9a1be07d35c6a8e1f90b2d4c6e8a0b1c3d5e'' @ [CHR 0x0A])"
    unfolding hf by (simp add: os_defs path_defs headDetached_def)
  have t: "TrimSpace (''main'' @ [CHR 0x0A]) = ''main''"
    by (simp add: TrimSpace_def spaceRunes_def trimLeftBy.simps)
  have hash: "isHash ''4f2c9a1be07d35c6a8e1f90b2d4c6e8a0b1c3d5e''"
    by (simp add: isHash_def isHexDigit_def)
  from parseBranchName_head_file [of headOnBranch ?repo "''main'' @ [CHR 0x0A]"] r1 t
  have a: "parseBranchName ?repo headOnBranch = (None, ?repo\<lparr>BranchName := ''main''\<rparr>)"
    by simp
  from parseBranchName_head_file [of headDetached ?repo _
      "''4f2c9a1be07d35c6a8e1f90b2d4c6e8a0b1c3d5e''" "[CHR 0x0A]"] r2 hash
  have b: "parseBranchName ?repo headDetached
      = (None, ?repo\<lparr>BranchName := ''4f2c9a1be07d35c6a8e1f90b2d4c6e8a0b1c3d5e''\<rparr>)"
    by simp
  from a b show ?thesis by simp
qed

section \<open>The file tree under the system calls\<close>

lemma files_record_call [simp]: "files (record_call c r w) = files w"
  by (simp add: record_call_def)

lemma trace_record_call [simp]: "trace (record_call c r w) = trace w @ [(c, r)]"
  by (simp add: record_call_def)

lemma cwd_record_call [simp]: "cwd (record_call c r w) = cwd w"
  by (simp add: record_call_def)

lemma walk_mono:
  assumes "t1 \<subseteq>\<^sub>m t0"
  shows "walk t1 cur cs = Inr r \<Longrightarrow> walk t0 cur cs = Inr r"
proof (induction cs arbitrary: cur)
  case Nil
  then show ?case by simp
next
  case (Cons c cs)
  from Cons.prems have d: "t1 (keyOf cur) = Some Dir"
    by (auto split: option.splits node.splits)
  with assms have d0: "t0 (keyOf cur) = Some Dir"
    by (auto simp: map_le_def dom_def)
  from Cons.prems d have "walk t1 (enter cur c) cs = Inr r"
    by simp
  then have "walk t0 (enter cur c) cs = Inr r"
    by (rule Cons.IH)
  with d0 show ?case
    by simp
qed

lemma walk_update:
  assumes "t k \<noteq> Some Dir"
  shows "walk t cur cs = Inr r \<Longrightarrow> walk (t(k \<mapsto> n)) cur cs = Inr r"
proof (induction cs arbitrary: cur)
  case Nil
  then show ?case by simp
next
  case (Cons c cs)
  from Cons.prems have d: "t (keyOf cur) = Some Dir"
    by (auto split: option.splits node.splits)
  with assms have d0: "(t(k \<mapsto> n)) (keyOf cur) = Some Dir"
    by auto
  from Cons.prems d have "walk t (enter cur c) cs = Inr r"
    by simp
  then have "walk (t(k \<mapsto> n)) (enter cur c) cs = Inr r"
    by (rule Cons.IH)
  with d0 show ?case
    by (simp del: fun_upd_apply)
qed

lemma resolve_Some: "resolve w p = Some k \<longleftrightarrow> locate w p = Inr k"
  by (simp add: resolve_def split: sum.splits)

lemma locate_walk:
  "locate w p = Inr k \<longleftrightarrow>
     p \<noteq> [] \<and> (\<exists>cur. walk (files w) (startOf w p) (splitOn CHR ''/'' p) = Inr cur \<and> k = keyOf cur)"
  by (auto simp: locate_def split: sum.splits)

lemma resolve_mono:
  assumes "files w1 \<subseteq>\<^sub>m files w0" and "cwd w1 = cwd w0" and "resolve w1 p = Some k"
  shows "resolve w0 p = Some k"
proof -
  from assms(3) obtain cur where p: "p \<noteq> []" and k: "k = keyOf cur"
    and wk: "walk (files w1) (startOf w1 p) (splitOn CHR ''/'' p) = Inr cur"
    by (auto simp: resolve_Some locate_walk)
  have "startOf w1 p = startOf w0 p"
    by (simp add: startOf_def assms(2))
  with walk_mono [OF assms(1) wk] have "walk (files w0) (startOf w0 p) (splitOn CHR ''/'' p) = Inr cur"
    by simp
  with p k show ?thesis
    by (auto simp: resolve_Some locate_walk)
qed

lemma FileExists_files:
  "FileExists w p \<longleftrightarrow> (\<exists>k. resolve w p = Some k \<and> files w k \<noteq> None)"
  by (auto simp: FileExists_def Stat_def resolve_def split: option.splits sum.splits)

lemma below_refl [simp]: "below k k"
  by (simp add: below_def)

lemma not_stuck: "\<not> stuck w k k \<Longrightarrow> below k q \<Longrightarrow> \<not> stuck w k q"
  by (auto simp: stuck_def list_ex_iff)

lemma os_RemoveAll_ok:
  assumes "os_RemoveAll p w = (None, w1)" and "resolve w p = Some k" and "files w k \<noteq> None"
  shows "files w1 = (\<lambda>q. if below k q then None else files w q)" and "cwd w1 = cwd w"
proof -
  from assms(2) have l: "locate w p = Inr k"
    by (simp add: resolve_Some)
  then have p: "p \<noteq> []"
    by (simp add: locate_walk)
  from assms(1) l p assms(3) have ns: "\<not> stuck w k k"
    by (auto simp: os_RemoveAll_def split: if_splits)
  from assms(1) l p assms(3) ns
  have "files w1 = (\<lambda>q. if below k q \<and> \<not> stuck w k q then None else files w q)"
    by (auto simp: os_RemoveAll_def split: if_splits)
  also have "\<dots> = (\<lambda>q. if below k q then None else files w q)"
    using not_stuck [OF ns] by auto
  finally show "files w1 = (\<lambda>q. if below k q then None else files w q)" .
  from assms(1) show "cwd w1 = cwd w"
    by (auto simp: os_RemoveAll_def split: prod.splits)
qed

section \<open>Directory hygiene before a network clone\<close>

text \<open>
  C2. When \<open>prepareCloneDirectory\<close> returns without error, the directory of the
  repository is absent or holds the completion marker. More precisely, with the tree as
  \<open>os.MkdirAll\<close> of the target path left it: if the directory is there and the marker
  is not, everything at and below the directory has been removed and nothing else has
  changed; otherwise nothing has changed at all.
\<close>

theorem prepareCloneDirectory_purges_partial:
  assumes "prepareCloneDirectory repo opts w = (None, repo1, w1)"
  shows "(\<not> FileExists w1 (path repo1) \<or> FileExists w1 (sentinelPath repo1)) \<and>
         (let w0 = snd (os_MkdirAll (TargetPath opts) w) in
          if FileExists w0 (path repo1) \<and> \<not> FileExists w0 (sentinelPath repo1)
          then \<forall>k q. resolve w0 (path repo1) = Some k \<longrightarrow>
                 files w1 q = (if below k q then None else files w0 q)
          else w1 = w0)"
proof -
  obtain r0 w0 where mk: "os_MkdirAll (TargetPath opts) w = (r0, w0)"
    by (cases "os_MkdirAll (TargetPath opts) w")
  define repo' where "repo' = repo\<lparr>path := Join [TargetPath opts, extractRepoName repo]\<rparr>"
  from assms mk have r0: "r0 = None"
    by (cases r0) (auto simp: prepareCloneDirectory_def)
  show ?thesis
  proof (cases "shouldCleanupIncompleteClone repo' w0")
    case True
    with assms mk r0 have rm: "os_RemoveAll (path repo') w0 = (None, w1)" and rp: "repo1 = repo'"
      by (auto simp: prepareCloneDirectory_def repo'_def Let_def split: prod.splits option.splits)
    from True obtain k where k: "resolve w0 (path repo') = Some k" and there: "files w0 k \<noteq> None"
      by (auto simp: shouldCleanupIncompleteClone_def FileExists_files)
    have f1: "files w1 = (\<lambda>q. if below k q then None else files w0 q)"
      and c1: "cwd w1 = cwd w0"
      using os_RemoveAll_ok [OF rm k there] by auto
    have le: "files w1 \<subseteq>\<^sub>m files w0"
      by (auto simp: f1 map_le_def split: if_splits)
    have gone: "\<not> FileExists w1 (path repo1)"
    proof
      assume "FileExists w1 (path repo1)"
      then obtain k' where k': "resolve w1 (path repo') = Some k'" and n: "files w1 k' \<noteq> None"
        by (auto simp: FileExists_files rp)
      from resolve_mono [OF le c1 k'] k have "k' = k"
        by simp
      with n show False
        by (simp add: f1)
    qed
    from True have part: "FileExists w0 (path repo1) \<and> \<not> FileExists w0 (sentinelPath repo1)"
      by (simp add: shouldCleanupIncompleteClone_def rp)
    show ?thesis
      using gone part by (simp add: mk rp k f1)
  next
    case False
    with assms mk r0 have same: "w1 = w0" and rp: "repo1 = repo'"
      by (auto simp: prepareCloneDirectory_def repo'_def Let_def split: prod.splits option.splits)
    from False show ?thesis
      by (auto simp: mk same rp shouldCleanupIncompleteClone_def)
  qed
qed

lemma prep_ok: "fst (prepareCloneDirectory remoteRepo remoteOpts partialClone) = None"
  by (simp add: run_defs os_defs path_defs scenario_defs partialClone_def)

lemma prep_repo: "fst (snd (prepareCloneDirectory remoteRepo remoteOpts partialClone))
    = remoteRepo\<lparr>path := ''/cache/mod''\<rparr>"
  by (simp add: run_defs os_defs path_defs scenario_defs partialClone_def)


theorem prepareCloneDirectory_purges_partial_witness:
  "fst (prepareCloneDirectory remoteRepo remoteOpts partialClone) = None \<and>
   FileExists (snd (os_MkdirAll ''/cache'' partialClone)) ''/cache/mod'' \<and>
   \<not> FileExists (snd (os_MkdirAll ''/cache'' partialClone)) ''/cache/mod/.catalog-clone-complete'' \<and>
   \<not> FileExists (snd (snd (prepareCloneDirectory remoteRepo remoteOpts partialClone))) ''/cache/mod'' \<and>
   files (snd (snd (prepareCloneDirectory remoteRepo remoteOpts partialClone))) ''/cache/mod/main.tf''
     = None \<and>
   files (snd (snd (prepareCloneDirectory remoteRepo remoteOpts partialClone))) ''/cache/other''
     = Some Dir"
proof -
  define W1 where "W1 = snd (snd (prepareCloneDirectory remoteRepo remoteOpts partialClone))"
  define W0 where "W0 = snd (os_MkdirAll (TargetPath remoteOpts) partialClone)"
  let ?R1 = "remoteRepo\<lparr>path := ''/cache/mod''\<rparr>"
  have run: "prepareCloneDirectory remoteRepo remoteOpts partialClone = (None, ?R1, W1)"
    using prep_ok prep_repo by (simp add: W1_def prod_eq_iff)
  have p: "path ?R1 = ''/cache/mod''"
    by simp
  have s: "sentinelPath ?R1 = ''/cache/mod/.catalog-clone-complete''"
    by (simp add: sentinelPath_def cloneCompleteSentinel_def path_defs)
  have t: "TargetPath remoteOpts = ''/cache''"
    by (simp add: remoteOpts_def)
  have there: "FileExists W0 ''/cache/mod''"
    by (simp add: W0_def t run_defs os_defs path_defs partialClone_def)
  have nomark: "\<not> FileExists W0 ''/cache/mod/.catalog-clone-complete''"
    by (simp add: W0_def t run_defs os_defs path_defs partialClone_def)
  have k: "resolve W0 ''/cache/mod'' = Some ''/cache/mod''"
    by (simp add: W0_def t run_defs os_defs path_defs partialClone_def)
  have old: "files W0 ''/cache/other'' = Some Dir"
    by (simp add: W0_def t run_defs os_defs path_defs partialClone_def)
  have nomark1: "\<not> FileExists W1 ''/cache/mod/.catalog-clone-complete''"
    by (simp add: W1_def run_defs os_defs path_defs scenario_defs partialClone_def)
  from prepareCloneDirectory_purges_partial [OF run]
  have gone: "\<not> FileExists W1 ''/cache/mod'' \<or> FileExists W1 ''/cache/mod/.catalog-clone-complete''"
    and rest: "\<forall>k q. resolve W0 ''/cache/mod'' = Some k \<longrightarrow>
                 files W1 q = (if below k q then None else files W0 q)"
    using there nomark by (simp_all add: p s W0_def [symmetric] Let_def)
  from rest k have f: "files W1 q = (if below ''/cache/mod'' q then None else files W0 q)" for q
    by blast
  have a: "files W1 ''/cache/mod/main.tf'' = None"
    by (simp add: f below_def)
  have b: "files W1 ''/cache/other'' = Some Dir"
    by (simp add: f below_def old)
  from gone nomark1 have c: "\<not> FileExists W1 ''/cache/mod''"
    by blast
  from prep_ok there nomark a b c show ?thesis
    by (simp add: W1_def W0_def t)
qed

section \<open>The steps of a network clone\<close>

lemma os_Create_trace:
  "os_Create p w = (r, w1) \<Longrightarrow> trace w1 = trace w @ [(Create p, map_option OsError r)]"
  by (auto simp: os_Create_def split: prod.splits)

lemma os_MkdirAll_trace:
  "os_MkdirAll p w = (r, w1) \<Longrightarrow> trace w1 = trace w @ [(MkdirAll p, map_option OsError r)]"
  by (auto simp: os_MkdirAll_def split: prod.splits)

lemma os_RemoveAll_trace:
  "os_RemoveAll p w = (r, w1) \<Longrightarrow> trace w1 = trace w @ [(RemoveAll p, map_option OsError r)]"
  by (auto simp: os_RemoveAll_def split: prod.splits)

lemma os_Create_ok:
  assumes "os_Create p w = (None, w1)"
  shows "FileExists w1 p"
proof -
  from assms obtain k where l: "locate w p = Inr k" and nd: "files w k \<noteq> Some Dir"
    and f: "files w1 = (files w)(k \<mapsto> File [])" and c: "cwd w1 = cwd w"
    by (auto simp: os_Create_def split: sum.splits option.splits node.splits if_splits)
  from l obtain cur where p: "p \<noteq> []" and k: "k = keyOf cur"
    and wk: "walk (files w) (startOf w p) (splitOn CHR ''/'' p) = Inr cur"
    by (auto simp: locate_walk)
  have "startOf w1 p = startOf w p"
    by (simp add: startOf_def c)
  with walk_update [OF nd wk, of "File []"] f
  have "walk (files w1) (startOf w1 p) (splitOn CHR ''/'' p) = Inr cur"
    by simp
  with p k have "resolve w1 p = Some k"
    by (auto simp: resolve_Some locate_walk)
  moreover from f have "files w1 k \<noteq> None"
    by simp
  ultimately show ?thesis
    by (auto simp: FileExists_files)
qed

lemma os_Create_failed:
  "os_Create p w = (Some e, w1) \<Longrightarrow> files w1 = files w"
  by (auto simp: os_Create_def split: sum.splits option.splits node.splits if_splits)

lemma prepare_steps:
  assumes "prepareCloneDirectory repo opts w = (rp, repoP, w0)"
  shows "useCAS repoP = useCAS repo" and "cloneURL repoP = cloneURL repo"
    and "\<exists>pre. trace w0 = trace w @ pre \<and>
           (\<forall>ev \<in> set pre. \<not> isCreate (fst ev) \<and> \<not> viaGetter (fst ev) \<and>
              (rp = None \<longrightarrow> snd ev = None))"
proof -
  obtain r0 wm where mk: "os_MkdirAll (TargetPath opts) w = (r0, wm)"
    by (cases "os_MkdirAll (TargetPath opts) w")
  note tm = os_MkdirAll_trace [OF mk]
  define repo' where "repo' = repo\<lparr>path := Join [TargetPath opts, extractRepoName repo]\<rparr>"
  obtain r1 wr where rm: "os_RemoveAll (path repo') wm = (r1, wr)"
    by (cases "os_RemoveAll (path repo') wm")
  note tr = os_RemoveAll_trace [OF rm]
  from assms mk rm show "useCAS repoP = useCAS repo" and "cloneURL repoP = cloneURL repo"
    by (auto simp: prepareCloneDirectory_def repo'_def Let_def split: option.splits if_splits)
  show "\<exists>pre. trace w0 = trace w @ pre \<and>
           (\<forall>ev \<in> set pre. \<not> isCreate (fst ev) \<and> \<not> viaGetter (fst ev) \<and>
              (rp = None \<longrightarrow> snd ev = None))"
  proof (cases r0)
    case (Some e)
    with assms mk have "w0 = wm" "rp \<noteq> None"
      by (auto simp: prepareCloneDirectory_def)
    with tm show ?thesis
      by (intro exI [of _ "[(MkdirAll (TargetPath opts), map_option OsError r0)]"])
         (auto simp: isCreate_def viaGetter_def)
  next
    case None
    show ?thesis
    proof (cases "shouldCleanupIncompleteClone repo' wm")
      case False
      with assms mk None have "w0 = wm"
        by (auto simp: prepareCloneDirectory_def repo'_def Let_def)
      with tm None show ?thesis
        by (intro exI [of _ "[(MkdirAll (TargetPath opts), None)]"])
           (simp add: isCreate_def viaGetter_def)
    next
      case True
      with assms mk rm None have "w0 = wr" and "rp = None \<longrightarrow> r1 = None"
        by (auto simp: prepareCloneDirectory_def repo'_def Let_def split: option.splits)
      with tm tr None show ?thesis
        by (intro exI [of _ "[(MkdirAll (TargetPath opts), None),
              (RemoveAll (path repo'), map_option OsError r1)]"])
           (auto simp: isCreate_def viaGetter_def)
    qed
  qed
qed

lemma casFetch_events:
  assumes "casFetch c src dir t = (rf, t1, evs)"
  shows "\<forall>ev \<in> set evs. \<not> isCreate (fst ev) \<and> \<not> viaGetter (fst ev) \<and>
           (rf = None \<longrightarrow> snd ev = None)"
  using assms
  by (auto simp: casFetch_def isCreate_def viaGetter_def split: prod.splits option.splits)

lemma getterFetch_events:
  assumes "getterFetch c src dir t = (rf, t1, evs)"
  shows "\<forall>ev \<in> set evs. \<not> isCreate (fst ev) \<and> (rf = None \<longrightarrow> snd ev = None)"
  using assms
  by (auto simp: getterFetch_def isCreate_def Let_def split: prod.splits sum.splits)

lemma performClone_cas:
  assumes "useCAS repo"
    and "casFetch c (SourceURL opts) (path repo) (files w) = (rf, t, evs)"
    and "os_Create (sentinelPath repo) (fetched w t evs) = (rc, wc)"
  shows "performClone c repo opts w =
     (case rf of
        Some e \<Rightarrow> (Some e, repo, fetched w t evs)
      | None \<Rightarrow> (map_option (\<lambda>oe. WithStack (OsError oe)) rc, repo, wc))"
  using assms
  by (auto simp: performClone_def casFetch_def fetched_def createSentinel_def record_call_def
      split: prod.splits option.splits)

lemma performClone_getter:
  assumes "\<not> useCAS repo"
    and "getterFetch c (SourceURL opts) (path repo) (files w) = (rf, t, evs)"
    and "os_Create (sentinelPath repo) (fetched w t evs) = (rc, wc)"
  shows "\<exists>repo1. path repo1 = path repo \<and> useCAS repo1 = useCAS repo \<and>
     performClone c repo opts w =
     (case rf of
        Some e \<Rightarrow> (Some e, repo1, fetched w t evs)
      | None \<Rightarrow> (map_option (\<lambda>oe. WithStack (OsError oe)) rc, repo1, wc))"
proof (cases "tf_ToSourceURL c (SourceURL opts) []")
  case (Inl e)
  with assms show ?thesis
    by (intro exI [of _ repo])
       (auto simp: performClone_def getterFetch_def fetched_def sourceErr_def record_call_def)
next
  case (Inr u)
  have s: "sentinelPath (repo\<lparr>cloneURL := url_String u\<rparr>) = sentinelPath repo"
    by (simp add: sentinelPath_def)
  from Inr assms show ?thesis
    by (intro exI [of _ "repo\<lparr>cloneURL := url_String u\<rparr>"])
       (auto simp: performClone_def getterFetch_def fetched_def createSentinel_def s
          sourceErr_def record_call_def Let_def split: prod.splits option.splits)
qed

lemma clone_network:
  assumes rs: "resolveCloneURL repo w = Inr src" and nl: "\<not> IsDir w src"
    and pr: "prepareCloneDirectory repo \<lparr>SourceURL = src, TargetPath = path repo\<rparr> w
               = (rp, repoP, w0)"
    and fe: "(if useCAS repo then casFetch c src (path repoP) (files w0)
              else getterFetch c src (path repoP) (files w0)) = (rf, t, evs)"
    and cr: "os_Create (sentinelPath repoP) (fetched w0 t evs) = (rc, wc)"
  shows "\<exists>repo1. path repo1 = path repoP \<and> useCAS repo1 = useCAS repo \<and>
     (useCAS repo \<longrightarrow> repo1 = repoP) \<and>
     clone c repo w =
       (case rp of
          Some e \<Rightarrow> (Some e, repo1, w0)
        | None \<Rightarrow>
            (case rf of
               Some e \<Rightarrow> (Some e, repo1, fetched w0 t evs)
             | None \<Rightarrow> (map_option (\<lambda>oe. WithStack (OsError oe)) rc, repo1, wc)))"
proof (cases rp)
  case (Some e)
  with rs nl pr have "clone c repo w = (Some e, repoP, w0)"
    by (simp add: clone_def cloneFrom_def)
  with Some prepare_steps(1) [OF pr] show ?thesis
    by (intro exI [of _ repoP]) simp
next
  case None
  let ?opts = "\<lparr>SourceURL = src, TargetPath = path repo\<rparr>"
  from rs nl pr None have cl: "clone c repo w = performClone c repoP ?opts w0"
    by (simp add: clone_def cloneFrom_def)
  note u = prepare_steps(1) [OF pr]
  show ?thesis
  proof (cases "useCAS repo")
    case True
    with fe have "casFetch c (SourceURL ?opts) (path repoP) (files w0) = (rf, t, evs)"
      by simp
    from performClone_cas [OF _ this cr] True u None show ?thesis
      by (intro exI [of _ repoP]) (simp add: cl)
  next
    case False
    with fe have "getterFetch c (SourceURL ?opts) (path repoP) (files w0) = (rf, t, evs)"
      by simp
    from performClone_getter [OF _ this cr] False u
    obtain repo1 where "path repo1 = path repoP" "useCAS repo1 = useCAS repoP"
      and "performClone c repoP ?opts w0 =
       (case rf of
          Some e \<Rightarrow> (Some e, repo1, fetched w0 t evs)
        | None \<Rightarrow> (map_option (\<lambda>oe. WithStack (OsError oe)) rc, repo1, wc))"
      by auto
    with None False u show ?thesis
      by (intro exI [of _ repo1]) (simp add: cl)
  qed
qed

section \<open>The completion marker is the last step of a network clone\<close>

text \<open>
  C1. When the source cannot be resolved, \<open>clone\<close> returns the error of that step and
  does nothing. When the resolved source is not an existing local directory, \<open>clone\<close>
  takes three steps, in this order: the preparation of the directory; the fetch from
  the resolved source into the directory of the repository, on the tree the preparation
  left (\<open>casFetch\<close> with the CAS engine, \<open>getterFetch\<close> otherwise); the creation of the
  completion marker in that directory, on the tree the fetch left. A step runs only when
  the steps before it succeeded. \<open>clone\<close> returns the error of the step that failed, as
  the preparation or the fetch gave it and with a stack trace for \<open>os.Create\<close>, and the
  world as that step left it; it succeeds when all three did. The only call of
  \<open>os.Create\<close> is the last call, and every call before a step that runs has succeeded,
  so \<open>clone\<close> writes the marker by its last call alone: after a success it is in the
  directory; after a failed creation the tree is the one the fetch left.
\<close>

theorem clone_marker_last:
  assumes "prepareCloneDirectory repo \<lparr>SourceURL = src, TargetPath = path repo\<rparr> w
             = (rp, repoP, w0)"
    and "(if useCAS repo then casFetch c src (path repoP) (files w0)
          else getterFetch c src (path repoP) (files w0)) = (rf, t, evs)"
    and "os_Create (sentinelPath repoP) (fetched w0 t evs) = (rc, wc)"
  shows "(\<forall>e. resolveCloneURL repo w = Inl e \<longrightarrow> clone c repo w = (Some e, repo, w)) \<and>
    (resolveCloneURL repo w = Inr src \<and> \<not> IsDir w src \<longrightarrow>
       (\<exists>repo1. path repo1 = path repoP \<and>
          clone c repo w =
            (case rp of
               Some e \<Rightarrow> (Some e, repo1, w0)
             | None \<Rightarrow>
                 (case rf of
                    Some e \<Rightarrow> (Some e, repo1, fetched w0 t evs)
                  | None \<Rightarrow>
                      (case rc of
                         Some e \<Rightarrow> (Some (WithStack (OsError e)), repo1, wc)
                       | None \<Rightarrow> (None, repo1, wc))))) \<and>
       (\<exists>pre. trace w0 = trace w @ pre \<and>
          (\<forall>ev \<in> set (pre @ evs). \<not> isCreate (fst ev)) \<and>
          (rp = None \<longrightarrow> (\<forall>ev \<in> set pre. snd ev = None)) \<and>
          (rf = None \<longrightarrow> (\<forall>ev \<in> set evs. snd ev = None))) \<and>
       trace wc = trace w0 @ evs @ [(Create (sentinelPath repoP), map_option OsError rc)] \<and>
       (rc = None \<longrightarrow> FileExists wc (sentinelPath repoP)) \<and>
       (rc \<noteq> None \<longrightarrow> files wc = t))"
proof (intro conjI allI impI)
  fix e assume "resolveCloneURL repo w = Inl e"
  then show "clone c repo w = (Some e, repo, w)"
    by (simp add: clone_def)
next
  assume a: "resolveCloneURL repo w = Inr src \<and> \<not> IsDir w src"
  from clone_network [OF _ _ assms] a
  obtain repo1 where p: "path repo1 = path repoP"
    and cl: "clone c repo w =
       (case rp of
          Some e \<Rightarrow> (Some e, repo1, w0)
        | None \<Rightarrow>
            (case rf of
               Some e \<Rightarrow> (Some e, repo1, fetched w0 t evs)
             | None \<Rightarrow> (map_option (\<lambda>oe. WithStack (OsError oe)) rc, repo1, wc)))"
    by blast
  show "\<exists>repo1. path repo1 = path repoP \<and>
          clone c repo w =
            (case rp of
               Some e \<Rightarrow> (Some e, repo1, w0)
             | None \<Rightarrow>
                 (case rf of
                    Some e \<Rightarrow> (Some e, repo1, fetched w0 t evs)
                  | None \<Rightarrow>
                      (case rc of
                         Some e \<Rightarrow> (Some (WithStack (OsError e)), repo1, wc)
                       | None \<Rightarrow> (None, repo1, wc))))"
    by (intro exI [of _ repo1]) (simp add: p cl split: option.splits)
next
  assume a: "resolveCloneURL repo w = Inr src \<and> \<not> IsDir w src"
  from prepare_steps(3) [OF assms(1)] obtain pre where t: "trace w0 = trace w @ pre"
    and pe: "\<forall>ev \<in> set pre. \<not> isCreate (fst ev) \<and> (rp = None \<longrightarrow> snd ev = None)"
    by blast
  have fe: "\<forall>ev \<in> set evs. \<not> isCreate (fst ev) \<and> (rf = None \<longrightarrow> snd ev = None)"
  proof (cases "useCAS repo")
    case True
    with assms(2) casFetch_events [of c src "path repoP" "files w0" rf t evs] show ?thesis
      by simp
  next
    case False
    with assms(2) getterFetch_events [of c src "path repoP" "files w0" rf t evs] show ?thesis
      by simp
  qed
  from t pe fe show "\<exists>pre. trace w0 = trace w @ pre \<and>
          (\<forall>ev \<in> set (pre @ evs). \<not> isCreate (fst ev)) \<and>
          (rp = None \<longrightarrow> (\<forall>ev \<in> set pre. snd ev = None)) \<and>
          (rf = None \<longrightarrow> (\<forall>ev \<in> set evs. snd ev = None))"
    by (intro exI [of _ pre]) auto
next
  show "trace wc = trace w0 @ evs @ [(Create (sentinelPath repoP), map_option OsError rc)]"
    using os_Create_trace [OF assms(3)] by (simp add: fetched_def)
next
  assume "rc = None"
  with assms(3) show "FileExists wc (sentinelPath repoP)"
    by (intro os_Create_ok) simp
next
  assume "rc \<noteq> None"
  with assms(3) os_Create_failed [of "sentinelPath repoP" "fetched w0 t evs" _ wc]
  show "files wc = t"
    by (auto simp: fetched_def)
qed

lemma marker_clonedRepo:
  "sentinelPath (r\<lparr>path := ''/cache/mod''\<rparr>) = ''/cache/mod/.catalog-clone-complete''"
  by (simp add: sentinelPath_def cloneCompleteSentinel_def path_defs)

lemma remoteRepo_source:
  "resolveCloneURL remoteRepo w = Inr ''https://github.com/acme/mod''"
  by (simp add: resolveCloneURL_def scenario_defs)

lemma remoteRepo_not_local: "\<not> IsDir freshCache ''https://github.com/acme/mod''"
  by (simp add: os_defs path_defs freshCache_def)

lemma prepare_fresh:
  "prepareCloneDirectory remoteRepo
     \<lparr>SourceURL = ''https://github.com/acme/mod'', TargetPath = path remoteRepo\<rparr> freshCache
   = (None, clonedRepo, record_call (MkdirAll ''/cache'') None freshCache)"
  by (simp add: run_defs os_defs path_defs scenario_defs freshCache_def)

lemma sealed_not_local: "\<not> IsDir sealedCache ''https://github.com/acme/mod''"
  by (simp add: os_defs path_defs sealedCache_def freshCache_def)

lemma prepare_sealed:
  "prepareCloneDirectory remoteRepo
     \<lparr>SourceURL = ''https://github.com/acme/mod'', TargetPath = path remoteRepo\<rparr> sealedCache
   = (None, clonedRepo, record_call (MkdirAll ''/cache'') None sealedCache)"
  by (simp add: run_defs os_defs path_defs scenario_defs sealedCache_def freshCache_def)

theorem clone_marker_last_witness:
  "resolveCloneURL remoteRepo freshCache = Inr ''https://github.com/acme/mod'' \<and>
   \<not> IsDir freshCache ''https://github.com/acme/mod'' \<and>
   fst (clone offlineCollab remoteRepo freshCache) = Some (Foreign ''network unreachable'') \<and>
   trace (snd (snd (clone offlineCollab remoteRepo freshCache)))
     = [(MkdirAll ''/cache'', None), (ToSourceURL ''https://github.com/acme/mod'', None),
        (GetterGet ''/cache/mod'' ''https://github.com/acme/mod?ref=HEAD'',
           Some (Foreign ''network unreachable''))] \<and>
   files (snd (snd (clone offlineCollab remoteRepo freshCache))) ''/cache/mod'' = Some Dir \<and>
   \<not> FileExists (snd (snd (clone offlineCollab remoteRepo freshCache)))
       ''/cache/mod/.catalog-clone-complete'' \<and>
   fst (clone quietCollab remoteRepo freshCache) = None \<and>
   trace (snd (snd (clone quietCollab remoteRepo freshCache)))
     = [(MkdirAll ''/cache'', None), (ToSourceURL ''https://github.com/acme/mod'', None),
        (GetterGet ''/cache/mod'' ''https://github.com/acme/mod?ref=HEAD'', None),
        (Create ''/cache/mod/.catalog-clone-complete'', None)] \<and>
   FileExists (snd (snd (clone quietCollab remoteRepo freshCache)))
     ''/cache/mod/.catalog-clone-complete'' \<and>
   fst (clone quietCollab remoteRepo sealedCache) = Some (WithStack (OsError EACCES)) \<and>
   files (snd (snd (clone quietCollab remoteRepo sealedCache))) ''/cache/mod/.git/config''
     = Some (File originConfigText) \<and>
   \<not> FileExists (snd (snd (clone quietCollab remoteRepo sealedCache)))
       ''/cache/mod/.catalog-clone-complete'' \<and>
   clone quietCollab emptyRepo lostModule = (Some (WithStack (OsError ENOENT)), emptyRepo, lostModule)"
proof -
  let ?src = "''https://github.com/acme/mod''"
  let ?get = "GetterGet ''/cache/mod'' ''https://github.com/acme/mod?ref=HEAD''"
  define W0 where "W0 = record_call (MkdirAll ''/cache'') None freshCache"
  have pr: "prepareCloneDirectory remoteRepo \<lparr>SourceURL = ?src, TargetPath = path remoteRepo\<rparr>
      freshCache = (None, clonedRepo, W0)"
    by (simp add: prepare_fresh W0_def)
  have t0: "trace W0 = [(MkdirAll ''/cache'', None)]"
    by (simp add: W0_def freshCache_def worldOf_def)
  have p: "path clonedRepo = ''/cache/mod''" and u: "\<not> useCAS remoteRepo"
    by (simp_all add: scenario_defs)
  have m: "sentinelPath clonedRepo = ''/cache/mod/.catalog-clone-complete''"
    by (simp add: clonedRepo_def marker_clonedRepo)
  define T2 where "T2 = (files W0)(''/cache/mod'' \<mapsto> Dir)"
  define E2 where "E2 = [(ToSourceURL ?src, None), (?get, Some (Foreign ''network unreachable''))]"
  have f2: "(if useCAS remoteRepo then casFetch offlineCollab ?src (path clonedRepo) (files W0)
      else getterFetch offlineCollab ?src (path clonedRepo) (files W0))
      = (Some (Foreign ''network unreachable''), T2, E2)"
    by (simp add: u p getterFetch_def offlineCollab_def quietCollab_def url_String_def
        TrimSlashes_def T2_def E2_def)
  obtain RC2 WC2 where c2: "os_Create (sentinelPath clonedRepo) (fetched W0 T2 E2) = (RC2, WC2)"
    by (cases "os_Create (sentinelPath clonedRepo) (fetched W0 T2 E2)")
  from clone_marker_last [OF pr f2 c2] remoteRepo_source remoteRepo_not_local
  obtain R2 where bad: "clone offlineCollab remoteRepo freshCache
      = (Some (Foreign ''network unreachable''), R2, fetched W0 T2 E2)"
    by auto
  have b1: "trace (fetched W0 T2 E2) = [(MkdirAll ''/cache'', None), (ToSourceURL ?src, None),
      (?get, Some (Foreign ''network unreachable''))]"
    by (simp add: fetched_def t0 E2_def)
  have b2: "files (fetched W0 T2 E2) ''/cache/mod'' = Some Dir"
    by (simp add: fetched_def T2_def)
  have b3: "\<not> FileExists (fetched W0 T2 E2) ''/cache/mod/.catalog-clone-complete''"
    by (simp add: fetched_def T2_def W0_def os_defs path_defs record_call_def freshCache_def)
  define T1 where "T1 = checkout ''/cache/mod'' (files W0)"
  define E1 where "E1 = [(ToSourceURL ?src, None), (?get, None :: error option)]"
  have f1: "(if useCAS remoteRepo then casFetch quietCollab ?src (path clonedRepo) (files W0)
      else getterFetch quietCollab ?src (path clonedRepo) (files W0)) = (None, T1, E1)"
    by (simp add: u p getterFetch_def quietCollab_def url_String_def TrimSlashes_def
        T1_def E1_def)
  define WC1 where "WC1 = snd (os_Create ''/cache/mod/.catalog-clone-complete'' (fetched W0 T1 E1))"
  have "fst (os_Create ''/cache/mod/.catalog-clone-complete'' (fetched W0 T1 E1)) = None"
    by (simp add: fetched_def T1_def W0_def checkout_def os_Create_def os_defs path_defs
        record_call_def freshCache_def)
  then have c1: "os_Create (sentinelPath clonedRepo) (fetched W0 T1 E1) = (None, WC1)"
    by (simp add: WC1_def prod_eq_iff m)
  from clone_marker_last [OF pr f1 c1] remoteRepo_source remoteRepo_not_local
  obtain R1 where ok: "clone quietCollab remoteRepo freshCache = (None, R1, WC1)"
    and a1: "trace WC1 = trace W0 @ E1 @ [(Create (sentinelPath clonedRepo), None)]"
    and a2: "FileExists WC1 (sentinelPath clonedRepo)"
    by auto
  from a1 have a1': "trace WC1 = [(MkdirAll ''/cache'', None), (ToSourceURL ?src, None),
      (?get, None), (Create ''/cache/mod/.catalog-clone-complete'', None)]"
    by (simp add: t0 E1_def m)
  define W3 where "W3 = record_call (MkdirAll ''/cache'') None sealedCache"
  have pr3: "prepareCloneDirectory remoteRepo \<lparr>SourceURL = ?src, TargetPath = path remoteRepo\<rparr>
      sealedCache = (None, clonedRepo, W3)"
    by (simp add: prepare_sealed W3_def)
  define T3 where "T3 = checkout ''/cache/mod'' (files W3)"
  have f3: "(if useCAS remoteRepo then casFetch quietCollab ?src (path clonedRepo) (files W3)
      else getterFetch quietCollab ?src (path clonedRepo) (files W3)) = (None, T3, E1)"
    by (simp add: u p getterFetch_def quietCollab_def url_String_def TrimSlashes_def
        T3_def E1_def)
  define WC3 where
    "WC3 = snd (os_Create ''/cache/mod/.catalog-clone-complete'' (fetched W3 T3 E1))"
  have "fst (os_Create ''/cache/mod/.catalog-clone-complete'' (fetched W3 T3 E1)) = Some EACCES"
    by (simp add: fetched_def T3_def W3_def checkout_def os_Create_def os_defs path_defs
        record_call_def sealedCache_def freshCache_def)
  then have c3: "os_Create (sentinelPath clonedRepo) (fetched W3 T3 E1) = (Some EACCES, WC3)"
    by (simp add: WC3_def prod_eq_iff m)
  from clone_marker_last [OF pr3 f3 c3] remoteRepo_source sealed_not_local
  obtain R3 where sealed: "clone quietCollab remoteRepo sealedCache
      = (Some (WithStack (OsError EACCES)), R3, WC3)" and s1: "files WC3 = T3"
    by auto
  have s2: "T3 ''/cache/mod/.git/config'' = Some (File originConfigText)"
    by (simp add: T3_def checkout_def)
  have "cwd WC3 = cwd sealedCache"
    by (simp add: WC3_def os_Create_def fetched_def W3_def split: prod.splits)
  then have s3: "\<not> FileExists WC3 ''/cache/mod/.catalog-clone-complete''"
    by (simp add: s1 T3_def W3_def checkout_def os_defs path_defs sealedCache_def freshCache_def)
  have lost: "resolveCloneURL emptyRepo lostModule = Inl (WithStack (OsError ENOENT))"
    by (simp add: resolveCloneURL_def Getwd_def emptyRepo_def lostModule_def)
  obtain rp4 repoP4 w4 where pr4: "prepareCloneDirectory emptyRepo
      \<lparr>SourceURL = ?src, TargetPath = path emptyRepo\<rparr> lostModule = (rp4, repoP4, w4)"
    by (cases "prepareCloneDirectory emptyRepo
      \<lparr>SourceURL = ?src, TargetPath = path emptyRepo\<rparr> lostModule")
  obtain rf4 t4 evs4 where f4: "(if useCAS emptyRepo
        then casFetch quietCollab ?src (path repoP4) (files w4)
        else getterFetch quietCollab ?src (path repoP4) (files w4)) = (rf4, t4, evs4)"
    by (cases "if useCAS emptyRepo
        then casFetch quietCollab ?src (path repoP4) (files w4)
        else getterFetch quietCollab ?src (path repoP4) (files w4)")
  obtain rc4 wc4 where c4: "os_Create (sentinelPath repoP4) (fetched w4 t4 evs4) = (rc4, wc4)"
    by (cases "os_Create (sentinelPath repoP4) (fetched w4 t4 evs4)")
  from clone_marker_last [OF pr4 f4 c4] lost
  have nowd: "clone quietCollab emptyRepo lostModule
      = (Some (WithStack (OsError ENOENT)), emptyRepo, lostModule)"
    by blast
  from remoteRepo_source remoteRepo_not_local b1 b2 b3 a1' a2 s1 s2 s3 nowd show ?thesis
    by (simp add: ok bad sealed m)
qed

text \<open>
  A directory that is complete from an earlier run is kept by \<open>prepareCloneDirectory\<close>;
  when the fetch into it fails, \<open>clone\<close> returns the error and the marker of the
  earlier run is still there.
\<close>

theorem failed_clone_keeps_marker_counterexample:
  "FileExists completeClone ''/cache/mod/.catalog-clone-complete'' \<and>
   fst (clone offlineCollab remoteRepo completeClone) = Some (Foreign ''network unreachable'') \<and>
   path (fst (snd (clone offlineCollab remoteRepo completeClone))) = ''/cache/mod'' \<and>
   FileExists (snd (snd (clone offlineCollab remoteRepo completeClone)))
     ''/cache/mod/.catalog-clone-complete''"
  by (simp add: clone_defs run_defs os_defs path_defs scenario_defs completeClone_def)

section \<open>An empty clone URL\<close>

lemma extractRepoName_empty: "cloneURL repo = [] \<Longrightarrow> extractRepoName repo = ''temp''"
  by (simp add: extractRepoName_def)

lemma prepare_path:
  assumes "prepareCloneDirectory repo opts w = (None, repoP, w0)"
  shows "path repoP = Join [TargetPath opts, extractRepoName repo]"
  using assms
  by (auto simp: prepareCloneDirectory_def Let_def split: prod.splits option.splits if_splits)

text \<open>
  C8. For a repository whose clone URL is empty: when the working directory cannot be
  determined, \<open>resolveCloneURL\<close> returns the error of \<open>os.Getwd\<close> with a stack trace,
  and \<open>clone\<close> returns it and does nothing. When \<open>os.Getwd\<close> returns \<open>d\<close>,
  \<open>resolveCloneURL\<close> returns \<open>d\<close> and \<open>clone\<close> goes on with \<open>d\<close> as its source. When \<open>d\<close>
  is an existing directory, given by an absolute path as \<open>os.Getwd\<close> returns it, it
  becomes the path of the repository and nothing is called. Otherwise the directory is
  prepared with \<open>d\<close> as the source of the clone options, the repository goes to \<open>temp\<close>
  below the target path, the fetch is the fetch from \<open>d\<close> into that directory and the
  completion marker follows it; \<open>clone\<close> returns the error of the step that failed and
  the world as that step left it.
\<close>

theorem resolveCloneURL_empty:
  assumes "cloneURL repo = []"
    and "prepareCloneDirectory repo \<lparr>SourceURL = d, TargetPath = path repo\<rparr> w = (rp, repoP, w0)"
    and "(if useCAS repo then casFetch c d (path repoP) (files w0)
          else getterFetch c d (path repoP) (files w0)) = (rf, t, evs)"
    and "os_Create (sentinelPath repoP) (fetched w0 t evs) = (rc, wc)"
  shows "(\<forall>e. Getwd w = Inl e \<longrightarrow>
            resolveCloneURL repo w = Inl (WithStack (OsError e)) \<and>
            clone c repo w = (Some (WithStack (OsError e)), repo, w)) \<and>
         (Getwd w = Inr d \<longrightarrow>
            resolveCloneURL repo w = Inr d \<and>
            (IsDir w d \<and> IsAbs d \<longrightarrow> clone c repo w = (None, repo\<lparr>path := d\<rparr>, w)) \<and>
            (\<not> IsDir w d \<longrightarrow>
               (rp = None \<longrightarrow> path repoP = Join [path repo, ''temp'']) \<and>
               (\<exists>repo1. path repo1 = path repoP \<and>
                  clone c repo w =
                    (case rp of
                       Some e \<Rightarrow> (Some e, repo1, w0)
                     | None \<Rightarrow>
                         (case rf of
                            Some e \<Rightarrow> (Some e, repo1, fetched w0 t evs)
                          | None \<Rightarrow>
                              (case rc of
                                 Some e \<Rightarrow> (Some (WithStack (OsError e)), repo1, wc)
                               | None \<Rightarrow> (None, repo1, wc)))))))"
proof (intro conjI allI impI)
  fix e assume g: "Getwd w = Inl e"
  with assms(1) show "resolveCloneURL repo w = Inl (WithStack (OsError e))"
    by (simp add: resolveCloneURL_def)
  with g show "clone c repo w = (Some (WithStack (OsError e)), repo, w)"
    by (simp add: clone_def)
next
  assume g: "Getwd w = Inr d"
  with assms(1) show rs: "resolveCloneURL repo w = Inr d"
    by (simp add: resolveCloneURL_def)
  {
    assume "IsDir w d \<and> IsAbs d"
    with rs show "clone c repo w = (None, repo\<lparr>path := d\<rparr>, w)"
      by (simp add: clone_def cloneFrom_def handleLocalDir_def)
  }
  {
    assume "\<not> IsDir w d" and "rp = None"
    with assms(1,2) show "path repoP = Join [path repo, ''temp'']"
      using prepare_path [of repo "\<lparr>SourceURL = d, TargetPath = path repo\<rparr>" w repoP w0]
      by (simp add: extractRepoName_empty)
  }
  {
    assume nd: "\<not> IsDir w d"
    from clone_network [OF rs nd assms(2,3,4)]
    obtain repo1 where p: "path repo1 = path repoP"
      and cl: "clone c repo w =
         (case rp of
            Some e \<Rightarrow> (Some e, repo1, w0)
          | None \<Rightarrow>
              (case rf of
                 Some e \<Rightarrow> (Some e, repo1, fetched w0 t evs)
               | None \<Rightarrow> (map_option (\<lambda>oe. WithStack (OsError oe)) rc, repo1, wc)))"
      by blast
    show "\<exists>repo1. path repo1 = path repoP \<and>
                  clone c repo w =
                    (case rp of
                       Some e \<Rightarrow> (Some e, repo1, w0)
                     | None \<Rightarrow>
                         (case rf of
                            Some e \<Rightarrow> (Some e, repo1, fetched w0 t evs)
                          | None \<Rightarrow>
                              (case rc of
                                 Some e \<Rightarrow> (Some (WithStack (OsError e)), repo1, wc)
                               | None \<Rightarrow> (None, repo1, wc))))"
      by (intro exI [of _ repo1]) (simp add: p cl split: option.splits)
  }
qed

lemma prepare_temp:
  "prepareCloneDirectory (emptyRepo\<lparr>path := ''/cache''\<rparr>)
     \<lparr>SourceURL = ''/work'', TargetPath = ''/cache''\<rparr> freshCache
   = (None, emptyRepo\<lparr>path := ''/cache/temp''\<rparr>,
      record_call (MkdirAll ''/cache'') None freshCache)"
  by (simp add: run_defs os_defs path_defs scenario_defs freshCache_def)

theorem resolveCloneURL_empty_witness:
  "cloneURL emptyRepo = [] \<and> Getwd localModule = Inr ''/work'' \<and>
   IsDir localModule ''/work'' \<and> IsAbs ''/work'' \<and>
   resolveCloneURL emptyRepo localModule = Inr ''/work'' \<and>
   clone quietCollab emptyRepo localModule = (None, emptyRepo\<lparr>path := ''/work''\<rparr>, localModule) \<and>
   Getwd freshCache = Inr ''/work'' \<and> \<not> IsDir freshCache ''/work'' \<and>
   fst (clone quietCollab (emptyRepo\<lparr>path := ''/cache''\<rparr>) freshCache) = None \<and>
   path (fst (snd (clone quietCollab (emptyRepo\<lparr>path := ''/cache''\<rparr>) freshCache)))
     = ''/cache/temp'' \<and>
   trace (snd (snd (clone quietCollab (emptyRepo\<lparr>path := ''/cache''\<rparr>) freshCache)))
     = [(MkdirAll ''/cache'', None), (ToSourceURL ''/work'', None),
        (GetterGet ''/cache/temp'' ''work?ref=HEAD'', None),
        (Create ''/cache/temp/.catalog-clone-complete'', None)] \<and>
   Getwd lostModule = Inl ENOENT \<and>
   resolveCloneURL emptyRepo lostModule = Inl (WithStack (OsError ENOENT)) \<and>
   clone quietCollab emptyRepo lostModule = (Some (WithStack (OsError ENOENT)), emptyRepo, lostModule)"
proof -
  have a: "cloneURL emptyRepo = []"
    by (simp add: emptyRepo_def)
  have b: "Getwd localModule = Inr ''/work''"
    by (simp add: Getwd_def localModule_def worldOf_def)
  have c: "IsDir localModule ''/work''"
    by (simp add: os_defs path_defs localModule_def)
  have d: "IsAbs ''/work''"
    by (simp add: IsAbs_def)
  obtain rp repoP w0 where pr: "prepareCloneDirectory emptyRepo
      \<lparr>SourceURL = ''/work'', TargetPath = path emptyRepo\<rparr> localModule = (rp, repoP, w0)"
    by (cases "prepareCloneDirectory emptyRepo
      \<lparr>SourceURL = ''/work'', TargetPath = path emptyRepo\<rparr> localModule")
  obtain rf t evs where fe: "(if useCAS emptyRepo
        then casFetch quietCollab ''/work'' (path repoP) (files w0)
        else getterFetch quietCollab ''/work'' (path repoP) (files w0)) = (rf, t, evs)"
    by (cases "if useCAS emptyRepo
        then casFetch quietCollab ''/work'' (path repoP) (files w0)
        else getterFetch quietCollab ''/work'' (path repoP) (files w0)")
  obtain rc wc where cr: "os_Create (sentinelPath repoP) (fetched w0 t evs) = (rc, wc)"
    by (cases "os_Create (sentinelPath repoP) (fetched w0 t evs)")
  from resolveCloneURL_empty [OF a pr fe cr] b c d
  have local: "resolveCloneURL emptyRepo localModule = Inr ''/work'' \<and>
    clone quietCollab emptyRepo localModule = (None, emptyRepo\<lparr>path := ''/work''\<rparr>, localModule)"
    by blast
  let ?repo = "emptyRepo\<lparr>path := ''/cache''\<rparr>"
  let ?temp = "emptyRepo\<lparr>path := ''/cache/temp''\<rparr>"
  let ?get = "GetterGet ''/cache/temp'' ''work?ref=HEAD''"
  define W0 where "W0 = record_call (MkdirAll ''/cache'') None freshCache"
  have a': "cloneURL ?repo = []"
    by (simp add: emptyRepo_def)
  have b': "Getwd freshCache = Inr ''/work''"
    by (simp add: Getwd_def freshCache_def worldOf_def)
  have c': "\<not> IsDir freshCache ''/work''"
    by (simp add: os_defs path_defs freshCache_def)
  have pr': "prepareCloneDirectory ?repo \<lparr>SourceURL = ''/work'', TargetPath = path ?repo\<rparr>
      freshCache = (None, ?temp, W0)"
    by (simp add: prepare_temp W0_def)
  have t0: "trace W0 = [(MkdirAll ''/cache'', None)]"
    by (simp add: W0_def freshCache_def worldOf_def)
  have m: "sentinelPath ?temp = ''/cache/temp/.catalog-clone-complete''"
    by (simp add: sentinelPath_def cloneCompleteSentinel_def path_defs)
  define T1 where "T1 = checkout ''/cache/temp'' (files W0)"
  define E1 where "E1 = [(ToSourceURL ''/work'', None), (?get, None :: error option)]"
  have fe': "(if useCAS ?repo then casFetch quietCollab ''/work'' (path ?temp) (files W0)
      else getterFetch quietCollab ''/work'' (path ?temp) (files W0)) = (None, T1, E1)"
    by (simp add: emptyRepo_def getterFetch_def quietCollab_def url_String_def TrimSlashes_def
        T1_def E1_def)
  define WC1 where
    "WC1 = snd (os_Create ''/cache/temp/.catalog-clone-complete'' (fetched W0 T1 E1))"
  have "fst (os_Create ''/cache/temp/.catalog-clone-complete'' (fetched W0 T1 E1)) = None"
    by (simp add: fetched_def T1_def W0_def checkout_def os_Create_def os_defs path_defs
        record_call_def freshCache_def)
  then have cr': "os_Create (sentinelPath ?temp) (fetched W0 T1 E1) = (None, WC1)"
    by (simp add: WC1_def prod_eq_iff m)
  from resolveCloneURL_empty [OF a' pr' fe' cr'] b' c'
  obtain R1 where ok: "clone quietCollab ?repo freshCache = (None, R1, WC1)"
    and p1: "path R1 = ''/cache/temp''"
    by auto
  have "trace WC1 = trace (fetched W0 T1 E1) @ [(Create ''/cache/temp/.catalog-clone-complete'', None)]"
    using os_Create_trace [OF cr'] by (simp add: m)
  then have tr: "trace WC1 = [(MkdirAll ''/cache'', None), (ToSourceURL ''/work'', None),
      (?get, None), (Create ''/cache/temp/.catalog-clone-complete'', None)]"
    by (simp add: fetched_def t0 E1_def)
  have g: "Getwd lostModule = Inl ENOENT"
    by (simp add: Getwd_def lostModule_def)
  obtain rp2 repoP2 w2 where pr2: "prepareCloneDirectory emptyRepo
      \<lparr>SourceURL = ''/work'', TargetPath = path emptyRepo\<rparr> lostModule = (rp2, repoP2, w2)"
    by (cases "prepareCloneDirectory emptyRepo
      \<lparr>SourceURL = ''/work'', TargetPath = path emptyRepo\<rparr> lostModule")
  obtain rf2 t2 evs2 where fe2: "(if useCAS emptyRepo
        then casFetch quietCollab ''/work'' (path repoP2) (files w2)
        else getterFetch quietCollab ''/work'' (path repoP2) (files w2)) = (rf2, t2, evs2)"
    by (cases "if useCAS emptyRepo
        then casFetch quietCollab ''/work'' (path repoP2) (files w2)
        else getterFetch quietCollab ''/work'' (path repoP2) (files w2)")
  obtain rc2 wc2 where cr2: "os_Create (sentinelPath repoP2) (fetched w2 t2 evs2) = (rc2, wc2)"
    by (cases "os_Create (sentinelPath repoP2) (fetched w2 t2 evs2)")
  from resolveCloneURL_empty [OF a pr2 fe2 cr2] g
  have lost: "resolveCloneURL emptyRepo lostModule = Inl (WithStack (OsError ENOENT)) \<and>
    clone quietCollab emptyRepo lostModule
      = (Some (WithStack (OsError ENOENT)), emptyRepo, lostModule)"
    by blast
  from a b c d local b' c' p1 tr g lost show ?thesis
    by (simp add: ok)
qed


section \<open>A local directory as the source\<close>

text \<open>
  C5. When the resolved source is an existing local directory, \<open>clone\<close> makes no call
  that changes the file tree and reaches no collaborator: the world is returned as it
  was, so no completion marker is written and the directory holds one afterwards exactly
  when it held one before. On success the path of the repository is the directory, made
  absolute; the only failure is that of \<open>os.Getwd\<close> for a relative path.
\<close>

theorem clone_local_directory:
  "resolveCloneURL repo w = Inr url \<and> IsDir w url \<longrightarrow>
     (\<exists>r repo1. clone c repo w = (r, repo1, w) \<and>
        (r = None \<longrightarrow> path repo1 = (if IsAbs url then url else Join [cwd w, url])) \<and>
        (r \<noteq> None \<longrightarrow> \<not> IsAbs url \<and> getwdErr w \<noteq> None))"
  by (auto simp: clone_def cloneFrom_def handleLocalDir_def Abs_def Getwd_def
      split: sum.splits option.splits)

lemma bareModule_source:
  "resolveCloneURL (emptyRepo\<lparr>cloneURL := ''/srv/mod'', path := ''/cache''\<rparr>) bareModule
     = Inr ''/srv/mod''"
  by (simp add: resolveCloneURL_def emptyRepo_def)

lemma bareModule_IsDir: "IsDir bareModule ''/srv/mod''"
  by (simp add: os_defs path_defs bareModule_def)

theorem clone_local_directory_witness:
  "resolveCloneURL (emptyRepo\<lparr>cloneURL := ''/srv/mod'', path := ''/cache''\<rparr>) bareModule
     = Inr ''/srv/mod'' \<and>
   IsDir bareModule ''/srv/mod'' \<and>
   snd (snd (clone quietCollab (emptyRepo\<lparr>cloneURL := ''/srv/mod'', path := ''/cache''\<rparr>)
               bareModule)) = bareModule"
proof -
  from clone_local_directory
    [of "emptyRepo\<lparr>cloneURL := ''/srv/mod'', path := ''/cache''\<rparr>" bareModule "''/srv/mod''"
      quietCollab]
    bareModule_source bareModule_IsDir
  obtain r repo1 where
    "clone quietCollab (emptyRepo\<lparr>cloneURL := ''/srv/mod'', path := ''/cache''\<rparr>) bareModule
       = (r, repo1, bareModule)"
    by blast
  with bareModule_source bareModule_IsDir show ?thesis
    by simp
qed

text \<open>
  A local module without a marker: \<open>clone\<close> succeeds on it and the directory holds no
  completion marker afterwards.
\<close>

theorem clone_local_directory_counterexample:
  "IsDir bareModule ''/srv/mod'' \<and>
   clone quietCollab (emptyRepo\<lparr>cloneURL := ''/srv/mod'', path := ''/cache''\<rparr>) bareModule
     = (None, emptyRepo\<lparr>cloneURL := ''/srv/mod'', path := ''/srv/mod''\<rparr>, bareModule) \<and>
   \<not> FileExists bareModule
         (sentinelPath (emptyRepo\<lparr>cloneURL := ''/srv/mod'', path := ''/srv/mod''\<rparr>))"
proof -
  have d: "IsDir bareModule ''/srv/mod''"
    by (simp add: os_defs path_defs bareModule_def)
  have c: "clone quietCollab (emptyRepo\<lparr>cloneURL := ''/srv/mod'', path := ''/cache''\<rparr>) bareModule
     = (None, emptyRepo\<lparr>cloneURL := ''/srv/mod'', path := ''/srv/mod''\<rparr>, bareModule)"
    using d by (simp add: clone_def cloneFrom_def resolveCloneURL_def handleLocalDir_def
        emptyRepo_def IsAbs_def)
  have s: "sentinelPath (emptyRepo\<lparr>cloneURL := ''/srv/mod'', path := ''/srv/mod''\<rparr>)
      = ''/srv/mod/.catalog-clone-complete''"
    by (simp add: sentinelPath_def cloneCompleteSentinel_def path_defs emptyRepo_def)
  have m: "\<not> FileExists bareModule ''/srv/mod/.catalog-clone-complete''"
    by (simp add: os_defs path_defs bareModule_def)
  from d c s m show ?thesis by simp
qed

section \<open>The \<open>cas://\<close> scheme\<close>

lemma clone_cas_no_getter:
  assumes "useCAS repo"
  shows "\<exists>new. trace (snd (snd (clone c repo w))) = trace w @ new \<and>
           (\<forall>ev \<in> set new. \<not> viaGetter (fst ev))"
proof (cases "resolveCloneURL repo w")
  case (Inl e)
  then show ?thesis
    by (intro exI [of _ "[]"]) (simp add: clone_def)
next
  case (Inr src)
  show ?thesis
  proof (cases "IsDir w src")
    case True
    with Inr show ?thesis
      by (intro exI [of _ "[]"]) (simp add: clone_def cloneFrom_def split: prod.splits)
  next
    case False
    obtain rp repoP w0 where pr: "prepareCloneDirectory repo
        \<lparr>SourceURL = src, TargetPath = path repo\<rparr> w = (rp, repoP, w0)"
      by (cases "prepareCloneDirectory repo \<lparr>SourceURL = src, TargetPath = path repo\<rparr> w")
    obtain rf t evs where fe: "casFetch c src (path repoP) (files w0) = (rf, t, evs)"
      by (cases "casFetch c src (path repoP) (files w0)")
    obtain rc wc where cr: "os_Create (sentinelPath repoP) (fetched w0 t evs) = (rc, wc)"
      by (cases "os_Create (sentinelPath repoP) (fetched w0 t evs)")
    from fe assms have fe': "(if useCAS repo then casFetch c src (path repoP) (files w0)
        else getterFetch c src (path repoP) (files w0)) = (rf, t, evs)"
      by simp
    from clone_network [OF Inr False pr fe' cr]
    have w: "snd (snd (clone c repo w)) =
        (case rp of Some e \<Rightarrow> w0
         | None \<Rightarrow> (case rf of Some e \<Rightarrow> fetched w0 t evs | None \<Rightarrow> wc))"
      by (auto split: option.splits)
    from prepare_steps(3) [OF pr] obtain pre where t0: "trace w0 = trace w @ pre"
      and pe: "\<forall>ev \<in> set pre. \<not> viaGetter (fst ev)"
      by auto
    from casFetch_events [OF fe] have ee: "\<forall>ev \<in> set evs. \<not> viaGetter (fst ev)"
      by blast
    have tc: "trace wc = trace w0 @ evs @ [(Create (sentinelPath repoP), map_option OsError rc)]"
      using os_Create_trace [OF cr] by (simp add: fetched_def)
    show ?thesis
    proof (cases rp)
      case (Some e)
      with w t0 pe show ?thesis
        by (intro exI [of _ pre]) simp
    next
      case None
      show ?thesis
      proof (cases rf)
        case (Some e)
        with w None t0 pe ee show ?thesis
          by (intro exI [of _ "pre @ evs"]) (auto simp: fetched_def)
      next
        case rfn: None
        with w None t0 pe ee tc show ?thesis
          by (intro exI [of _ "pre @ evs @ [(Create (sentinelPath repoP), map_option OsError rc)]"])
             (auto simp: viaGetter_def)
      qed
    qed
  qed
qed

lemma parse_keeps:
  "parseRemoteURL c repo w = (r, repo1) \<Longrightarrow> useCAS repo1 = useCAS repo \<and> cloneURL repo1 = cloneURL repo"
  "parseBranchName repo w = (r', repo2) \<Longrightarrow> useCAS repo2 = useCAS repo \<and> cloneURL repo2 = cloneURL repo"
  by (auto simp: parseRemoteURL_def parseBranchName_def Let_def
      split: if_splits sum.splits option.splits)

lemma buildRepo_world:
  "snd (buildRepo c url tempDir walkSymlinks cas w) =
   snd (snd (clone c \<lparr>cloneURL = url, path = tempDir, RemoteURL = [], BranchName = [],
                       walkWithSymlinks = walkSymlinks, useCAS = cas\<rparr> w))"
  by (simp add: buildRepo_def Let_def split: prod.splits option.splits)

lemma clone_cas_keeps:
  assumes "useCAS repo" and "clone c repo w = (r, repo1, w1)"
  shows "useCAS repo1 \<and> cloneURL repo1 = cloneURL repo"
proof (cases "resolveCloneURL repo w")
  case (Inl e)
  with assms show ?thesis
    by (simp add: clone_def)
next
  case (Inr src)
  show ?thesis
  proof (cases "IsDir w src")
    case True
    with Inr assms show ?thesis
      by (auto simp: clone_def cloneFrom_def handleLocalDir_def split: prod.splits if_splits sum.splits)
  next
    case False
    obtain rp repoP w0 where pr: "prepareCloneDirectory repo
        \<lparr>SourceURL = src, TargetPath = path repo\<rparr> w = (rp, repoP, w0)"
      by (cases "prepareCloneDirectory repo \<lparr>SourceURL = src, TargetPath = path repo\<rparr> w")
    obtain rf t evs where fe: "casFetch c src (path repoP) (files w0) = (rf, t, evs)"
      by (cases "casFetch c src (path repoP) (files w0)")
    obtain rc wc where cr: "os_Create (sentinelPath repoP) (fetched w0 t evs) = (rc, wc)"
      by (cases "os_Create (sentinelPath repoP) (fetched w0 t evs)")
    from fe assms have fe': "(if useCAS repo then casFetch c src (path repoP) (files w0)
        else getterFetch c src (path repoP) (files w0)) = (rf, t, evs)"
      by simp
    from clone_network [OF Inr False pr fe' cr] assms have "repo1 = repoP"
      by (auto split: option.splits)
    with prepare_steps(1,2) [OF pr] assms(1) show ?thesis
      by simp
  qed
qed

text \<open>
  C10. For a clone URL that starts with \<open>cas://\<close>. When CAS is not allowed, \<open>NewRepo\<close>
  returns an error and no repository, and the world is untouched. When CAS is allowed,
  \<open>NewRepo\<close> clones from the URL without the prefix, with \<open>useCAS\<close> set: a repository
  it returns has \<open>useCAS\<close> set and that URL as its clone URL, and no call goes to
  \<open>tf.ToSourceURL\<close> or go-getter. A URL without the prefix that is not empty is the
  resolved source; when the source cannot be resolved, \<open>NewRepo\<close> returns the error
  and nothing is called. When the resolved source is an existing local directory,
  nothing is called. When it is not, the directory is prepared; when the preparation
  fails, \<open>NewRepo\<close> returns its error and no engine is called; when it succeeds, the
  fetch is that of the CAS engine from the resolved source into the directory of the
  repository (\<open>cas.New\<close>, then the engine's \<open>Clone\<close>), \<open>NewRepo\<close> returns the error of
  the engine when it fails, and otherwise creates the completion marker and reads the
  remote URL and the branch name from the directory.
\<close>

theorem NewRepo_cas_scheme:
  assumes "HasPrefix url ''cas://''"
    and "repo = \<lparr>cloneURL = TrimPrefix url ''cas://'', path = tempDir, RemoteURL = [],
                  BranchName = [], walkWithSymlinks = walkSymlinks, useCAS = True\<rparr>"
    and "prepareCloneDirectory repo \<lparr>SourceURL = src, TargetPath = tempDir\<rparr> w = (rp, repoP, w0)"
    and "casFetch c src (path repoP) (files w0) = (rf, t, evs)"
    and "os_Create (sentinelPath repoP) (fetched w0 t evs) = (rc, wc)"
  shows "(\<exists>e. NewRepo c url tempDir walkSymlinks False w = (Inl e, w)) \<and>
    (\<forall>r3. fst (NewRepo c url tempDir walkSymlinks True w) = Inr r3 \<longrightarrow>
       useCAS r3 \<and> cloneURL r3 = TrimPrefix url ''cas://'') \<and>
    (\<exists>new. trace (snd (NewRepo c url tempDir walkSymlinks True w)) = trace w @ new \<and>
       (\<forall>ev \<in> set new. \<not> viaGetter (fst ev))) \<and>
    (TrimPrefix url ''cas://'' \<noteq> [] \<longrightarrow>
       resolveCloneURL repo w = Inr (TrimPrefix url ''cas://'')) \<and>
    (\<forall>e. resolveCloneURL repo w = Inl e \<longrightarrow>
       NewRepo c url tempDir walkSymlinks True w = (Inl e, w)) \<and>
    (resolveCloneURL repo w = Inr src \<and> IsDir w src \<longrightarrow>
       snd (NewRepo c url tempDir walkSymlinks True w) = w) \<and>
    (resolveCloneURL repo w = Inr src \<and> \<not> IsDir w src \<longrightarrow>
       NewRepo c url tempDir walkSymlinks True w =
         (case rp of
            Some e \<Rightarrow> (Inl e, w0)
          | None \<Rightarrow>
              (case rf of
                 Some e \<Rightarrow> (Inl e, fetched w0 t evs)
               | None \<Rightarrow>
                   (case rc of
                      Some e \<Rightarrow> (Inl (WithStack (OsError e)), wc)
                    | None \<Rightarrow>
                        (case parseRemoteURL c repoP wc of
                           (Some e, _) \<Rightarrow> (Inl e, wc)
                         | (None, repo2) \<Rightarrow>
                             (case parseBranchName repo2 wc of
                                (Some e, _) \<Rightarrow> (Inl e, wc)
                              | (None, repo3) \<Rightarrow> (Inr repo3, wc)))))))"
proof -
  let ?src = "TrimPrefix url ''cas://''"
  have cas: "useCAS repo" and cu: "cloneURL repo = ?src" and pa: "path repo = tempDir"
    by (simp_all add: assms(2))
  have nr: "NewRepo c url tempDir walkSymlinks True w = buildRepo c ?src tempDir walkSymlinks True w"
    using assms(1) by (simp add: NewRepo_def)
  have br: "buildRepo c ?src tempDir walkSymlinks True w =
      (case clone c repo w of
         (Some e, _, w1) \<Rightarrow> (Inl e, w1)
       | (None, repo1, w1) \<Rightarrow>
           (case parseRemoteURL c repo1 w1 of
              (Some e, _) \<Rightarrow> (Inl e, w1)
            | (None, repo2) \<Rightarrow>
                (case parseBranchName repo2 w1 of
                   (Some e, _) \<Rightarrow> (Inl e, w1)
                 | (None, repo3) \<Rightarrow> (Inr repo3, w1))))"
    by (simp add: buildRepo_def assms(2))
  have wld: "snd (NewRepo c url tempDir walkSymlinks True w) = snd (snd (clone c repo w))"
    by (simp add: nr buildRepo_world assms(2))
  have a: "\<exists>e. NewRepo c url tempDir walkSymlinks False w = (Inl e, w)"
    using assms(1) by (simp add: NewRepo_def)
  have b: "useCAS r3 \<and> cloneURL r3 = ?src"
    if "fst (NewRepo c url tempDir walkSymlinks True w) = Inr r3" for r3
  proof -
    obtain r repo1 w1 where cl: "clone c repo w = (r, repo1, w1)"
      by (cases "clone c repo w")
    obtain r' repo2 where p1: "parseRemoteURL c repo1 w1 = (r', repo2)"
      by (cases "parseRemoteURL c repo1 w1")
    obtain r'' repo3 where p2: "parseBranchName repo2 w1 = (r'', repo3)"
      by (cases "parseBranchName repo2 w1")
    from that have "r3 = repo3"
      by (simp add: nr br cl p1 p2 split: option.splits)
    with clone_cas_keeps [OF cas cl] parse_keeps(1) [OF p1] parse_keeps(2) [OF p2] cu
    show ?thesis
      by simp
  qed
  have d: "\<exists>new. trace (snd (NewRepo c url tempDir walkSymlinks True w)) = trace w @ new \<and>
       (\<forall>ev \<in> set new. \<not> viaGetter (fst ev))"
    using clone_cas_no_getter [OF cas, of c w] by (simp add: wld)
  have e: "resolveCloneURL repo w = Inr ?src" if "?src \<noteq> []"
    using that by (simp add: resolveCloneURL_def cu)
  have r: "NewRepo c url tempDir walkSymlinks True w = (Inl e, w)"
    if "resolveCloneURL repo w = Inl e" for e
    using that by (simp add: nr br clone_def)
  have f: "snd (NewRepo c url tempDir walkSymlinks True w) = w"
    if "resolveCloneURL repo w = Inr src \<and> IsDir w src"
    using that by (simp add: wld clone_def cloneFrom_def split: prod.splits)
  have g: "NewRepo c url tempDir walkSymlinks True w =
         (case rp of
            Some e \<Rightarrow> (Inl e, w0)
          | None \<Rightarrow>
              (case rf of
                 Some e \<Rightarrow> (Inl e, fetched w0 t evs)
               | None \<Rightarrow>
                   (case rc of
                      Some e \<Rightarrow> (Inl (WithStack (OsError e)), wc)
                    | None \<Rightarrow>
                        (case parseRemoteURL c repoP wc of
                           (Some e, _) \<Rightarrow> (Inl e, wc)
                         | (None, repo2) \<Rightarrow>
                             (case parseBranchName repo2 wc of
                                (Some e, _) \<Rightarrow> (Inl e, wc)
                              | (None, repo3) \<Rightarrow> (Inr repo3, wc))))))"
    if h: "resolveCloneURL repo w = Inr src \<and> \<not> IsDir w src"
  proof -
    from assms(3) have pr: "prepareCloneDirectory repo \<lparr>SourceURL = src, TargetPath = path repo\<rparr> w
        = (rp, repoP, w0)"
      by (simp add: pa)
    from assms(4) cas have fe: "(if useCAS repo then casFetch c src (path repoP) (files w0)
        else getterFetch c src (path repoP) (files w0)) = (rf, t, evs)"
      by simp
    from h clone_network [OF _ _ pr fe assms(5)] cas
    have "clone c repo w =
       (case rp of
          Some e \<Rightarrow> (Some e, repoP, w0)
        | None \<Rightarrow>
            (case rf of
               Some e \<Rightarrow> (Some e, repoP, fetched w0 t evs)
             | None \<Rightarrow> (map_option (\<lambda>oe. WithStack (OsError oe)) rc, repoP, wc)))"
      by auto
    then show ?thesis
      by (simp add: nr br split: option.splits)
  qed
  from a b d e r f g show ?thesis
    by blast
qed

lemma cas_prep:
  "prepareCloneDirectory
     \<lparr>cloneURL = ''github.com/acme/mod'', path = ''/cache'', RemoteURL = [], BranchName = [],
      walkWithSymlinks = False, useCAS = True\<rparr>
     \<lparr>SourceURL = ''github.com/acme/mod'', TargetPath = ''/cache''\<rparr> freshCache
   = (None,
      \<lparr>cloneURL = ''github.com/acme/mod'', path = ''/cache/mod'', RemoteURL = [], BranchName = [],
       walkWithSymlinks = False, useCAS = True\<rparr>,
      record_call (MkdirAll ''/cache'') None freshCache)"
  by (simp add: run_defs os_defs path_defs freshCache_def)

lemma cas_prep_blocked:
  "prepareCloneDirectory
     \<lparr>cloneURL = ''github.com/acme/mod'', path = ''/cache/mod/main.tf'', RemoteURL = [],
      BranchName = [], walkWithSymlinks = False, useCAS = True\<rparr>
     \<lparr>SourceURL = ''github.com/acme/mod'', TargetPath = ''/cache/mod/main.tf''\<rparr> partialClone
   = (Some (WithStack (OsError ENOTDIR)),
      \<lparr>cloneURL = ''github.com/acme/mod'', path = ''/cache/mod/main.tf'', RemoteURL = [],
       BranchName = [], walkWithSymlinks = False, useCAS = True\<rparr>,
      record_call (MkdirAll ''/cache/mod/main.tf'') (Some (OsError ENOTDIR)) partialClone)"
  by (simp add: run_defs os_defs path_defs partialClone_def)

theorem NewRepo_cas_scheme_witness:
  "HasPrefix ''cas://github.com/acme/mod'' ''cas://'' \<and>
   (\<exists>e. NewRepo quietCollab ''cas://github.com/acme/mod'' ''/cache'' False False freshCache
          = (Inl e, freshCache)) \<and>
   \<not> IsDir freshCache ''github.com/acme/mod'' \<and>
   fst (NewRepo quietCollab ''cas://github.com/acme/mod'' ''/cache'' False True freshCache)
     = Inr \<lparr>cloneURL = ''github.com/acme/mod'', path = ''/cache/mod'',
            RemoteURL = ''https://github.com/acme/mod.git'', BranchName = ''main'',
            walkWithSymlinks = False, useCAS = True\<rparr> \<and>
   trace (snd (NewRepo quietCollab ''cas://github.com/acme/mod'' ''/cache'' False True freshCache))
     = [(MkdirAll ''/cache'', None), (CasNew ''github.com/acme/mod'' ''/cache/mod'', None),
        (CasClone ''github.com/acme/mod'' ''/cache/mod'', None),
        (Create ''/cache/mod/.catalog-clone-complete'', None)] \<and>
   \<not> IsDir partialClone ''github.com/acme/mod'' \<and>
   fst (NewRepo quietCollab ''cas://github.com/acme/mod'' ''/cache/mod/main.tf'' False True
          partialClone) = Inl (WithStack (OsError ENOTDIR)) \<and>
   trace (snd (NewRepo quietCollab ''cas://github.com/acme/mod'' ''/cache/mod/main.tf'' False True
                 partialClone))
     = [(MkdirAll ''/cache/mod/main.tf'', Some (OsError ENOTDIR))]"
proof -
  let ?src = "''github.com/acme/mod''"
  let ?given = "\<lparr>cloneURL = ?src, path = ''/cache'', RemoteURL = [], BranchName = [],
               walkWithSymlinks = False, useCAS = True\<rparr>"
  let ?R = "\<lparr>cloneURL = ?src, path = ''/cache/mod'', RemoteURL = [], BranchName = [],
              walkWithSymlinks = False, useCAS = True\<rparr>"
  have p: "HasPrefix ''cas://github.com/acme/mod'' ''cas://''"
    by (simp add: HasPrefix_def)
  have s: "TrimPrefix ''cas://github.com/acme/mod'' ''cas://'' = ?src"
    by (simp add: TrimPrefix_def)
  have r0: "?given = \<lparr>cloneURL = TrimPrefix ''cas://github.com/acme/mod'' ''cas://'', path = ''/cache'',
      RemoteURL = [], BranchName = [], walkWithSymlinks = False, useCAS = True\<rparr>"
    by (simp add: s)
  have rs: "resolveCloneURL ?given w = Inr ?src" for w
    by (simp add: resolveCloneURL_def)
  have nd: "\<not> IsDir freshCache ?src"
    by (simp add: os_defs path_defs freshCache_def)
  define W0 where "W0 = record_call (MkdirAll ''/cache'') None freshCache"
  have pr: "prepareCloneDirectory ?given \<lparr>SourceURL = ?src, TargetPath = ''/cache''\<rparr> freshCache
      = (None, ?R, W0)"
    by (simp add: cas_prep W0_def)
  have t0: "trace W0 = [(MkdirAll ''/cache'', None)]"
    by (simp add: W0_def freshCache_def worldOf_def)
  have m: "sentinelPath ?R = ''/cache/mod/.catalog-clone-complete''"
    by (simp add: sentinelPath_def cloneCompleteSentinel_def path_defs)
  define T1 where "T1 = checkout ''/cache/mod'' (files W0)"
  define E1 where "E1 = [(CasNew ?src ''/cache/mod'', None :: error option),
      (CasClone ?src ''/cache/mod'', None)]"
  have fe: "casFetch quietCollab ?src (path ?R) (files W0) = (None, T1, E1)"
    by (simp add: casFetch_def quietCollab_def T1_def E1_def)
  define WC1 where
    "WC1 = snd (os_Create ''/cache/mod/.catalog-clone-complete'' (fetched W0 T1 E1))"
  have "fst (os_Create ''/cache/mod/.catalog-clone-complete'' (fetched W0 T1 E1)) = None"
    by (simp add: fetched_def T1_def W0_def checkout_def os_Create_def os_defs path_defs
        record_call_def freshCache_def)
  then have cr: "os_Create (sentinelPath ?R) (fetched W0 T1 E1) = (None, WC1)"
    by (simp add: WC1_def prod_eq_iff m)
  have tr: "trace WC1 = [(MkdirAll ''/cache'', None), (CasNew ?src ''/cache/mod'', None),
      (CasClone ?src ''/cache/mod'', None), (Create ''/cache/mod/.catalog-clone-complete'', None)]"
    using os_Create_trace [OF cr] by (simp add: m fetched_def t0 E1_def)
  let ?remote = "\<lparr>cloneURL = ?src, path = ''/cache/mod'',
      RemoteURL = ''https://github.com/acme/mod.git'', BranchName = [],
      walkWithSymlinks = False, useCAS = True\<rparr>"
  let ?final = "\<lparr>cloneURL = ?src, path = ''/cache/mod'',
      RemoteURL = ''https://github.com/acme/mod.git'', BranchName = ''main'',
      walkWithSymlinks = False, useCAS = True\<rparr>"
  have p1: "parseRemoteURL quietCollab ?R WC1 = (None, ?remote)"
    by (simp add: WC1_def fetched_def T1_def W0_def checkout_def os_Create_def record_call_def
        parse_defs scenario_defs os_defs path_defs freshCache_def)
  have p2: "parseBranchName ?remote WC1 = (None, ?final)"
    by (simp add: WC1_def fetched_def T1_def W0_def checkout_def os_Create_def record_call_def
        parse_defs scenario_defs os_defs path_defs freshCache_def)
  note inst = NewRepo_cas_scheme [OF p r0 pr fe cr]
  from inst have a:
    "\<exists>e. NewRepo quietCollab ''cas://github.com/acme/mod'' ''/cache'' False False freshCache
          = (Inl e, freshCache)"
    by blast
  from inst rs nd have "NewRepo quietCollab ''cas://github.com/acme/mod'' ''/cache'' False True
      freshCache = (Inr ?final, WC1)"
    by (simp add: p1 p2)
  then have b: "fst (NewRepo quietCollab ''cas://github.com/acme/mod'' ''/cache'' False True
      freshCache) = Inr ?final"
    and c: "snd (NewRepo quietCollab ''cas://github.com/acme/mod'' ''/cache'' False True
      freshCache) = WC1"
    by simp_all
  let ?below = "\<lparr>cloneURL = ?src, path = ''/cache/mod/main.tf'', RemoteURL = [], BranchName = [],
               walkWithSymlinks = False, useCAS = True\<rparr>"
  define WB where
    "WB = record_call (MkdirAll ''/cache/mod/main.tf'') (Some (OsError ENOTDIR)) partialClone"
  have b0: "?below = \<lparr>cloneURL = TrimPrefix ''cas://github.com/acme/mod'' ''cas://'',
      path = ''/cache/mod/main.tf'', RemoteURL = [], BranchName = [], walkWithSymlinks = False,
      useCAS = True\<rparr>"
    by (simp add: s)
  have rsb: "resolveCloneURL ?below partialClone = Inr ?src"
    by (simp add: resolveCloneURL_def)
  have ndb: "\<not> IsDir partialClone ?src"
    by (simp add: os_defs path_defs partialClone_def)
  have prb: "prepareCloneDirectory ?below \<lparr>SourceURL = ?src, TargetPath = ''/cache/mod/main.tf''\<rparr>
      partialClone = (Some (WithStack (OsError ENOTDIR)), ?below, WB)"
    by (simp add: cas_prep_blocked WB_def)
  obtain rf t evs where feb: "casFetch quietCollab ?src (path ?below) (files WB) = (rf, t, evs)"
    by (cases "casFetch quietCollab ?src (path ?below) (files WB)")
  obtain rc wc where crb: "os_Create (sentinelPath ?below) (fetched WB t evs) = (rc, wc)"
    by (cases "os_Create (sentinelPath ?below) (fetched WB t evs)")
  from NewRepo_cas_scheme [OF p b0 prb feb crb] rsb ndb
  have "NewRepo quietCollab ''cas://github.com/acme/mod'' ''/cache/mod/main.tf'' False True
      partialClone = (Inl (WithStack (OsError ENOTDIR)), WB)"
    by simp
  moreover have "trace WB = [(MkdirAll ''/cache/mod/main.tf'', Some (OsError ENOTDIR))]"
    by (simp add: WB_def partialClone_def worldOf_def)
  ultimately have d: "fst (NewRepo quietCollab ''cas://github.com/acme/mod''
        ''/cache/mod/main.tf'' False True partialClone) = Inl (WithStack (OsError ENOTDIR))"
    and e: "trace (snd (NewRepo quietCollab ''cas://github.com/acme/mod''
        ''/cache/mod/main.tf'' False True partialClone))
      = [(MkdirAll ''/cache/mod/main.tf'', Some (OsError ENOTDIR))]"
    by simp_all
  from p a nd b c tr ndb d e show ?thesis
    by simp
qed

text \<open>
  A \<open>cas://\<close> URL whose rest names an existing local directory: \<open>NewRepo\<close> succeeds with
  CAS allowed, and no call is recorded, so the CAS engine has not been used.
\<close>

theorem NewRepo_local_directory_counterexample:
  "HasPrefix ''cas:///srv/mod'' ''cas://'' \<and>
   NewRepo quietCollab ''cas:///srv/mod'' ''/cache'' False True bareModule
     = (Inr \<lparr>cloneURL = ''/srv/mod'', path = ''/srv/mod'', RemoteURL = [], BranchName = ''main'',
             walkWithSymlinks = False, useCAS = True\<rparr>, bareModule) \<and>
   trace bareModule = []"
  by (simp add: NewRepo_def buildRepo_def clone_defs parse_defs scenario_defs os_defs path_defs
      bareModule_def)

section \<open>The remote URL read from the git configuration\<close>

lemma originSection_remote: "HasPrefix originSection ''remote''"
  by (simp add: originSection_def HasPrefix_def)

lemma remoteSectionLoop_origin:
  "originSection \<in> set names \<Longrightarrow> remoteSectionLoop acc names = originSection"
  using originSection_remote
  by (induction names arbitrary: acc) (auto simp: originSection_def)

lemma remoteSectionLoop_no_origin:
  "originSection \<notin> set names \<Longrightarrow>
   remoteSectionLoop acc names =
     (case filter (\<lambda>n. HasPrefix n ''remote'') names of [] \<Rightarrow> acc | rs \<Rightarrow> last rs)"
  by (induction names arbitrary: acc) (auto simp: originSection_def split: list.splits)

text \<open>
  C4. A configuration with the remote sections \<open>upstream\<close> and \<open>fork\<close>, in this
  order, and no \<open>origin\<close>: \<open>parseRemoteURL\<close> sets \<open>RemoteURL\<close> to the url of \<open>fork\<close>,
  the last remote section, and not to that of \<open>upstream\<close>, the first one.
\<close>

theorem parseRemoteURL_last_remote:
  "SectionStrings forkConfig
     = [''DEFAULT'', ''remote '' @ [CHR 0x22] @ ''upstream'' @ [CHR 0x22],
        ''remote '' @ [CHR 0x22] @ ''fork'' @ [CHR 0x22]] \<and>
   KeyString forkConfig (''remote '' @ [CHR 0x22] @ ''upstream'' @ [CHR 0x22]) ''url''
     = ''https://github.com/acme/mod.git'' \<and>
   parseRemoteURL quietCollab (emptyRepo\<lparr>path := ''/cache/mod''\<rparr>) forkedClone
     = (None, emptyRepo\<lparr>path := ''/cache/mod'', RemoteURL := ''https://github.com/dev/mod.git''\<rparr>)"
  by (simp add: parse_defs scenario_defs forkedClone_def os_defs path_defs)

section \<open>The failures of the remote reference listing\<close>

lemma parseRefs_empty: "parseRefs [] = []"
  by (simp add: parseRefs_def parseRefLine_def List.map_filter_simps)

text \<open>
  C6. Over a network \<open>net\<close>, with git as \<open>gitOver\<close> models it: on a reachable remote
  none of whose references the pattern matches, \<open>LsRemote\<close> fails with the sentinel
  \<open>ErrNoMatchingReference\<close>; on a remote that is unreachable, misnamed or asks for
  credentials that are not there, it fails with the sentinel \<open>ErrCommandSpawn\<close>; and
  the two sentinels are different values.
\<close>

theorem LsRemote_failures:
  "(net remoteURL = Reachable refs \<and> (\<forall>r \<in> set refs. \<not> matches refPattern (Ref r)) \<longrightarrow>
      (\<exists>e. LsRemote (gitOver net matches) g remoteURL refPattern = Inl e \<and>
           Sentinel e = ErrNoMatchingReference)) \<and>
   (net remoteURL \<in> {Unreachable, Misnamed, AuthUnavailable} \<longrightarrow>
      (\<exists>e. LsRemote (gitOver net matches) g remoteURL refPattern = Inl e \<and>
           Sentinel e = ErrCommandSpawn)) \<and>
   ErrNoMatchingReference \<noteq> ErrCommandSpawn"
proof (intro conjI impI)
  assume a: "net remoteURL = Reachable refs \<and> (\<forall>r \<in> set refs. \<not> matches refPattern (Ref r))"
  then have "filter (\<lambda>r. matches refPattern (Ref r)) refs = []"
    by (simp add: filter_empty_conv)
  with a have "gitOver net matches (WorkDir g) (LsRemoteReq remoteURL refPattern) = Exited 0 []"
    by (simp add: gitOver_def)
  then show "\<exists>e. LsRemote (gitOver net matches) g remoteURL refPattern = Inl e \<and>
      Sentinel e = ErrNoMatchingReference"
    by (simp add: LsRemote_def parseRefs_empty)
next
  assume "net remoteURL \<in> {Unreachable, Misnamed, AuthUnavailable}"
  then have "\<exists>out. gitOver net matches (WorkDir g) (LsRemoteReq remoteURL refPattern) = Exited 128 out"
    by (auto simp: gitOver_def)
  then show "\<exists>e. LsRemote (gitOver net matches) g remoteURL refPattern = Inl e \<and>
      Sentinel e = ErrCommandSpawn"
    by (auto simp: LsRemote_def)
next
  show "ErrNoMatchingReference \<noteq> ErrCommandSpawn" by simp
qed

theorem LsRemote_failures_witness:
  "(\<exists>e. LsRemote (gitOver sampleNet exactRef) NewGitRunner
          ''https://github.com/gruntwork-io/terragrunt.git'' ''nonexistent-branch'' = Inl e \<and>
        Sentinel e = ErrNoMatchingReference) \<and>
   (\<exists>e. LsRemote (gitOver sampleNet exactRef) NewGitRunner
          ''https://github.com/nonexistent/repo.git'' ''HEAD'' = Inl e \<and>
        Sentinel e = ErrCommandSpawn)"
proof -
  have r: "sampleNet ''https://github.com/gruntwork-io/terragrunt.git''
      = Reachable [\<lparr>Hash = ''4f2c9a1be07d35c6a8e1f90b2d4c6e8a0b1c3d5e'', Ref = ''HEAD''\<rparr>,
                   \<lparr>Hash = ''4f2c9a1be07d35c6a8e1f90b2d4c6e8a0b1c3d5e'', Ref = ''refs/heads/main''\<rparr>]"
    by (simp add: sampleNet_def)
  have n: "\<forall>r \<in> set [\<lparr>Hash = ''4f2c9a1be07d35c6a8e1f90b2d4c6e8a0b1c3d5e'', Ref = ''HEAD''\<rparr>,
                   \<lparr>Hash = ''4f2c9a1be07d35c6a8e1f90b2d4c6e8a0b1c3d5e'', Ref = ''refs/heads/main''\<rparr>].
         \<not> exactRef ''nonexistent-branch'' (Ref r)"
    by (simp add: exactRef_def suffix_def)
  have m: "sampleNet ''https://github.com/nonexistent/repo.git'' \<in> {Unreachable, Misnamed, AuthUnavailable}"
    by (simp add: sampleNet_def)
  from LsRemote_failures [of sampleNet "''https://github.com/gruntwork-io/terragrunt.git''" _
      exactRef "''nonexistent-branch''" NewGitRunner] r n
  have a: "\<exists>e. LsRemote (gitOver sampleNet exactRef) NewGitRunner
          ''https://github.com/gruntwork-io/terragrunt.git'' ''nonexistent-branch'' = Inl e \<and>
        Sentinel e = ErrNoMatchingReference"
    by blast
  from LsRemote_failures [of sampleNet "''https://github.com/nonexistent/repo.git''" _
      exactRef "''HEAD''" NewGitRunner] m
  have b: "\<exists>e. LsRemote (gitOver sampleNet exactRef) NewGitRunner
          ''https://github.com/nonexistent/repo.git'' ''HEAD'' = Inl e \<and>
        Sentinel e = ErrCommandSpawn"
    by blast
  from a b show ?thesis by blast
qed

section \<open>The work-directory guard\<close>

text \<open>
  C7. On a client with no bound working directory, \<open>Clone\<close> and \<open>LsTree\<close> fail with the
  sentinel \<open>ErrNoWorkDir\<close>, whatever git would answer; on every client that
  \<open>WithWorkDir\<close> returns, \<open>RequiresWorkDir\<close> returns no error.
\<close>

theorem work_directory_guard:
  "(WorkDir g = None \<longrightarrow>
      (\<exists>e. Clone run g remoteURL shallow depth branch = Some e \<and> Sentinel e = ErrNoWorkDir) \<and>
      (\<exists>e. LsTree run g ref dir = Inl e \<and> Sentinel e = ErrNoWorkDir)) \<and>
   RequiresWorkDir (WithWorkDir g workDir) = None"
  by (simp add: Clone_def LsTree_def RequiresWorkDir_def WithWorkDir_def)

theorem work_directory_guard_witness:
  "WorkDir NewGitRunner = None \<and>
   (\<exists>e. Clone (gitOver sampleNet exactRef) NewGitRunner
           ''https://github.com/gruntwork-io/terragrunt.git'' True 1 ''main'' = Some e \<and>
         Sentinel e = ErrNoWorkDir) \<and>
   (\<exists>e. LsTree (gitOver sampleNet exactRef) NewGitRunner ''HEAD'' ''.'' = Inl e \<and>
         Sentinel e = ErrNoWorkDir) \<and>
   RequiresWorkDir (WithWorkDir NewGitRunner ''/tmp/clone'') = None"
proof -
  have u: "WorkDir NewGitRunner = None"
    by (simp add: NewGitRunner_def)
  from work_directory_guard [of NewGitRunner "gitOver sampleNet exactRef"
      "''https://github.com/gruntwork-io/terragrunt.git''" True 1 "''main''" "''HEAD''" "''.''"
      "''/tmp/clone''"] u
  show ?thesis by simp
qed

section \<open>Storing the same key twice\<close>



end
